theory Spec2Isabelle
  imports Complex_Main
begin

section \<open>JavaScript values, objects and the persisted store\<close>

text \<open>
  The renewal engine keeps all of its state in the browser's \<^verbatim>\<open>localStorage\<close>, as JSON
  documents under fixed keys. A value is modelled by \<open>jsval\<close> (numbers are the
  integral millisecond and index values the engine stores, or \<^verbatim>\<open>NaN\<close>; \<open>JArr\<close> is an
  array of strings, the only array a certificate field holds). \<open>JUndefined\<close> is the value of a
  property that is read but absent, and of a property written as \<^verbatim>\<open>undefined\<close>.
\<close>

datatype jsval =
    JUndefined
  | JNull
  | JBool bool
  | JNum int
  | JNaN
  | JStr string
  | JArr "string list"

text \<open>An object is a finite map from property names to values.\<close>

type_synonym jsobj = "string \<Rightarrow> jsval option"

definition get :: "jsobj \<Rightarrow> string \<Rightarrow> jsval" where
  "get obj k = (case obj k of None \<Rightarrow> JUndefined | Some v \<Rightarrow> v)"

text \<open>Truthiness, as \<^verbatim>\<open>!x\<close>, \<^verbatim>\<open>x || y\<close> and \<^verbatim>\<open>if (x)\<close> use it.\<close>

fun truthy :: "jsval \<Rightarrow> bool" where
  "truthy JUndefined = False"
| "truthy JNull = False"
| "truthy (JBool b) = b"
| "truthy (JNum n) = (n \<noteq> 0)"
| "truthy JNaN = False"
| "truthy (JStr s) = (s \<noteq> [])"
| "truthy (JArr xs) = True"

definition js_or :: "jsval \<Rightarrow> jsval \<Rightarrow> jsval" where
  "js_or a b = (if truthy a then a else b)"

text \<open>
  \<^verbatim>\<open>JSON.stringify\<close> leaves out every property whose value is \<^verbatim>\<open>undefined\<close> and
  writes \<^verbatim>\<open>NaN\<close> as \<^verbatim>\<open>null\<close>.
\<close>

definition stringify_obj :: "jsobj \<Rightarrow> jsobj" where
  "stringify_obj obj =
     (\<lambda>k. case obj k of Some JUndefined \<Rightarrow> None | Some JNaN \<Rightarrow> Some JNull | v \<Rightarrow> v)"

text \<open>
  What \<^verbatim>\<open>localStorage.getItem\<close> followed by \<^verbatim>\<open>JSON.parse\<close> finds under a key: nothing
  (\<^verbatim>\<open>null\<close> or the empty string), a text that does not parse or does not have the shape
  the reader expects (the reader's \<^verbatim>\<open>catch\<close> or shape test handles it), or a document.
  \<^verbatim>\<open>localStorage.setItem\<close> is taken to succeed.
\<close>

datatype 'a doc = Absent | Malformed | Doc 'a

record history_record =
  hr_id :: string
  hr_domain :: jsval
  hr_timestamp :: int
  hr_status :: string
  hr_error :: "string option"
  hr_oldExpiry :: "int option"
  hr_newExpiry :: "int option"

record cert_setting =
  cs_enabled :: "bool option"
  cs_lastCheck :: "int option"
  cs_lastRenewal :: "int option"

text \<open>
  The persisted configuration document: any of its fields may be missing.
  \<^verbatim>\<open>saveAutoRenewalConfig\<close> only stores a boolean \<^verbatim>\<open>enabled\<close>.
\<close>

record config_doc =
  cd_enabled :: "bool option"
  cd_threshold :: "int option"
  cd_checkInterval :: "int option"
  cd_certSettings :: "(string \<Rightarrow> cert_setting option) option"

record config =
  cfg_enabled :: bool
  cfg_threshold :: int
  cfg_checkInterval :: int
  cfg_certSettings :: "string \<Rightarrow> cert_setting option"

text \<open>
  The store, one field per key: \<^verbatim>\<open>q-manageDataPairs\<close>, \<^verbatim>\<open>q-certs\<close>,
  \<^verbatim>\<open>certple-renewal-history\<close>, \<^verbatim>\<open>certple-auto-renewal-config\<close>,
  \<^verbatim>\<open>q-acmeAccountKey\<close>, \<^verbatim>\<open>x-q-email\<close> and \<^verbatim>\<open>q-acmeURL\<close>.
\<close>

record storage =
  ls_manageDataPairs :: "jsobj list doc"
  ls_certs :: "jsobj list doc"
  ls_history :: "history_record list doc"
  ls_config :: "config_doc doc"
  ls_acmeAccountKey :: "string option"
  ls_email :: "string option"
  ls_acmeURL :: "string option"

section \<open>HistoryManager\<close>

definition MAX_RECORDS :: nat where
  "MAX_RECORDS = 10"

definition getHistory :: "storage \<Rightarrow> history_record list" where
  "getHistory st = (case ls_history st of Absent \<Rightarrow> [] | Malformed \<Rightarrow> [] | Doc rs \<Rightarrow> rs)"

text \<open>
  \<^verbatim>\<open>recordRenewal(domain, status, error, oldExpiry, newExpiry)\<close>. The identifier made
  by \<^verbatim>\<open>generateId\<close> and the reading of \<^verbatim>\<open>Date.now()\<close> are inputs \<open>rid\<close> and \<open>now\<close>.
\<close>

definition recordRenewal ::
  "string \<Rightarrow> int \<Rightarrow> jsval \<Rightarrow> string \<Rightarrow> string option \<Rightarrow> int option \<Rightarrow> int option
    \<Rightarrow> storage \<Rightarrow> storage" where
  "recordRenewal rid now domain status err oldExpiry newExpiry st =
     (let records = getHistory st;
          record = \<lparr> hr_id = rid, hr_domain = domain, hr_timestamp = now, hr_status = status,
                     hr_error = err, hr_oldExpiry = oldExpiry, hr_newExpiry = newExpiry \<rparr>;
          records = record # records;
          records = (if length records > MAX_RECORDS then take MAX_RECORDS records else records)
      in st\<lparr> ls_history := Doc records \<rparr>)"

text \<open>A sequence of calls, each given by the record it creates, oldest call first.\<close>

definition recordCall :: "history_record \<Rightarrow> storage \<Rightarrow> storage" where
  "recordCall r = recordRenewal (hr_id r) (hr_timestamp r) (hr_domain r) (hr_status r)
                    (hr_error r) (hr_oldExpiry r) (hr_newExpiry r)"

definition recordRenewals :: "history_record list \<Rightarrow> storage \<Rightarrow> storage" where
  "recordRenewals calls st = fold recordCall calls st"

section \<open>ConfigManager\<close>

definition getDefaultConfig :: config where
  "getDefaultConfig = \<lparr> cfg_enabled = False, cfg_threshold = 30,
                         cfg_checkInterval = 24 * 60 * 60 * 1000,
                         cfg_certSettings = (\<lambda>d. None) \<rparr>"

definition merge_config :: "config \<Rightarrow> config_doc \<Rightarrow> config" where
  "merge_config dflt c =
     \<lparr> cfg_enabled = (case cd_enabled c of None \<Rightarrow> cfg_enabled dflt | Some b \<Rightarrow> b),
       cfg_threshold = (case cd_threshold c of None \<Rightarrow> cfg_threshold dflt | Some n \<Rightarrow> n),
       cfg_checkInterval =
         (case cd_checkInterval c of None \<Rightarrow> cfg_checkInterval dflt | Some n \<Rightarrow> n),
       cfg_certSettings =
         (case cd_certSettings c of None \<Rightarrow> cfg_certSettings dflt | Some m \<Rightarrow> m) \<rparr>"

definition getAutoRenewalConfig :: "storage \<Rightarrow> config" where
  "getAutoRenewalConfig st =
     (case ls_config st of
        Absent \<Rightarrow> getDefaultConfig
      | Malformed \<Rightarrow> getDefaultConfig
      | Doc c \<Rightarrow> merge_config getDefaultConfig c)"

definition isGloballyEnabled :: "storage \<Rightarrow> bool" where
  "isGloballyEnabled st = (cfg_enabled (getAutoRenewalConfig st) = True)"

definition isCertAutoRenewalEnabled :: "storage \<Rightarrow> string \<Rightarrow> bool" where
  "isCertAutoRenewalEnabled st domain =
     (let config = getAutoRenewalConfig st in
      if \<not> cfg_enabled config then False
      else (case cfg_certSettings config domain of
              Some certSetting \<Rightarrow>
                (if cs_enabled certSetting = Some False then False else True)
            | None \<Rightarrow> True))"

section \<open>Strings\<close>

text \<open>
  A string is the list of the bytes of its UTF-8 encoding. \<^verbatim>\<open>String.prototype.includes\<close>,
  \<^verbatim>\<open>Array.prototype.join\<close>, the conversion of a value to a string that a template
  literal performs, and \<^verbatim>\<open>encodeURIComponent\<close> (every byte outside the unreserved
  characters becomes \<^verbatim>\<open>%XX\<close>).
\<close>

primrec str_includes :: "string \<Rightarrow> string \<Rightarrow> bool" where
  "str_includes [] sub = (sub = [])"
| "str_includes (c # cs) sub = (take (length sub) (c # cs) = sub \<or> str_includes cs sub)"

fun js_join :: "string \<Rightarrow> string list \<Rightarrow> string" where
  "js_join sep [] = []"
| "js_join sep [x] = x"
| "js_join sep (x # y # ys) = x @ sep @ js_join sep (y # ys)"

text \<open>The decimal digits of a number, most significant first, collected from the right.\<close>

definition digit_char :: "nat \<Rightarrow> char" where
  "digit_char d = ''0123456789'' ! d"

function number_digits :: "int \<Rightarrow> string \<Rightarrow> string" where
  "number_digits n acc =
     (let acc' = digit_char (nat (n mod 10)) # acc
      in if n div 10 \<le> 0 then acc' else number_digits (n div 10) acc')"
  by pat_completeness auto
termination
proof (relation "measure (\<lambda>(n, acc). nat n)")
  show "wf (measure (\<lambda>(n, acc). nat n))" by simp
next
  fix n :: int and acc x :: string
  assume "\<not> n div 10 \<le> 0"
  then have "n div 10 < n" and "0 < n" by presburger+
  then show "((n div 10, x), (n, acc)) \<in> measure (\<lambda>(n, acc). nat n)" by simp
qed

declare number_digits.simps [simp del]

definition number_to_string :: "int \<Rightarrow> string" where
  "number_to_string i =
     (if i < 0 then CHR ''-'' # number_digits (- i) [] else number_digits i [])"

fun js_to_string :: "jsval \<Rightarrow> string" where
  "js_to_string JUndefined = ''undefined''"
| "js_to_string JNull = ''null''"
| "js_to_string (JBool b) = (if b then ''true'' else ''false'')"
| "js_to_string (JNum n) = number_to_string n"
| "js_to_string JNaN = ''NaN''"
| "js_to_string (JStr s) = s"
| "js_to_string (JArr xs) = js_join '','' xs"

definition uri_unreserved :: "char \<Rightarrow> bool" where
  "uri_unreserved c =
     (c \<in> set ''ABCDEFGHIJKLMNOPQRSTUVWXYZabcdefghijklmnopqrstuvwxyz0123456789-_.!~*()''
      \<or> c = CHR 0x27)"

definition hex_digit :: "nat \<Rightarrow> char" where
  "hex_digit n = ''0123456789ABCDEF'' ! n"

definition encodeURIComponent :: "string \<Rightarrow> string" where
  "encodeURIComponent s =
     concat (map (\<lambda>c. if uri_unreserved c then [c]
                      else [CHR ''%'', hex_digit (of_char c div 16), hex_digit (of_char c mod 16)])
                 s)"

text \<open>Strict equality \<^verbatim>\<open>===\<close>: two arrays read from different places are never the same
  object, and \<^verbatim>\<open>NaN\<close> equals nothing.\<close>

fun strict_eq :: "jsval \<Rightarrow> jsval \<Rightarrow> bool" where
  "strict_eq (JArr xs) b = False"
| "strict_eq a (JArr ys) = False"
| "strict_eq JNaN b = False"
| "strict_eq a JNaN = False"
| "strict_eq a b = (a = b)"

section \<open>Dates\<close>

text \<open>
  A \<^verbatim>\<open>Date\<close> is its time value: an integral number of milliseconds since the epoch, or
  \<^verbatim>\<open>NaN\<close> (an invalid date), which is \<open>None\<close> here. \<^verbatim>\<open>Date.parse\<close>, \<^verbatim>\<open>toISOString\<close>
  and the local time zone adjustment \<^verbatim>\<open>LocalTZA(t, isUTC)\<close> belong to the host and are
  parameters of the model.
\<close>

record date_env =
  parseDate :: "string \<Rightarrow> int option"
  isoString :: "int \<Rightarrow> string"
  localTZA :: "int \<Rightarrow> bool \<Rightarrow> int"

definition msPerDay :: int where
  "msPerDay = 1000 * 60 * 60 * 24"

definition TimeClip :: "int \<Rightarrow> int option" where
  "TimeClip t = (if \<bar>t\<bar> > 8640000000000000 then None else Some t)"

definition LocalTime :: "date_env \<Rightarrow> int \<Rightarrow> int" where
  "LocalTime env t = t + localTZA env t True"

definition UTC :: "date_env \<Rightarrow> int \<Rightarrow> int" where
  "UTC env t = t - localTZA env t False"

text \<open>
  \<^verbatim>\<open>new Date(value)\<close>: a string is parsed, anything else is converted to a number
  (\<^verbatim>\<open>undefined\<close> to \<^verbatim>\<open>NaN\<close>, \<^verbatim>\<open>null\<close> and \<^verbatim>\<open>false\<close> to 0, \<^verbatim>\<open>true\<close> to 1; an array
  first becomes the string of its elements joined by commas).
\<close>

fun newDate :: "date_env \<Rightarrow> jsval \<Rightarrow> int option" where
  "newDate env JUndefined = None"
| "newDate env JNaN = None"
| "newDate env JNull = TimeClip 0"
| "newDate env (JBool b) = TimeClip (if b then 1 else 0)"
| "newDate env (JNum n) = TimeClip n"
| "newDate env (JStr s) = parseDate env s"
| "newDate env (JArr xs) = parseDate env (js_join '','' xs)"

text \<open>
  \<^verbatim>\<open>d.setDate(d.getDate() + n)\<close> on a valid date: \<^verbatim>\<open>getDate\<close> reads the day of the month
  of the local time, and \<^verbatim>\<open>setDate\<close> rebuilds the local time from the same year and
  month, the new day number and the unchanged time within the day, so the local time
  moves by \<open>n\<close> whole days; the result is converted back to UTC and clipped.
\<close>

definition setDate_getDate_plus :: "date_env \<Rightarrow> int \<Rightarrow> int \<Rightarrow> int option" where
  "setDate_getDate_plus env t n = TimeClip (UTC env (LocalTime env t + n * msPerDay))"

text \<open>
  Numbers that may be \<^verbatim>\<open>NaN\<close>: a comparison with \<^verbatim>\<open>NaN\<close> is false. The quotient
  \<^verbatim>\<open>diffTime / (1000 * 60 * 60 * 24)\<close> and \<^verbatim>\<open>Math.ceil\<close> are taken in the reals. This
  is what the doubles compute for every clock reading of magnitude up to 360000000000000
  milliseconds (some eleven thousand years around 1970): a time value is at most
  8640000000000000 in magnitude, so the difference is an integer below \<open>2^53\<close> and exact;
  its quotient by 86400000 is below \<open>2^27\<close>, where a double is off by less than
  \<open>2^-27\<close>, while a quotient that is not an integer is at least \<open>1/86400000\<close> away
  from the integers, so rounding never reaches one.
\<close>

definition num_le :: "int option \<Rightarrow> int \<Rightarrow> bool" where
  "num_le a b = (case a of None \<Rightarrow> False | Some x \<Rightarrow> x \<le> b)"

definition num_of :: "int option \<Rightarrow> jsval" where
  "num_of a = (case a of None \<Rightarrow> JNaN | Some x \<Rightarrow> JNum x)"

section \<open>CertificateScanner\<close>

definition scan_entry :: "date_env \<Rightarrow> int \<Rightarrow> nat \<Rightarrow> jsobj \<Rightarrow> jsobj" where
  "scan_entry env now index cert =
     [ ''id'' \<mapsto> JNum (int index),
       ''domains'' \<mapsto> js_or (get cert ''domains'') (JStr ''''),
       ''cert'' \<mapsto> js_or (get cert ''cert'') (JStr ''''),
       ''key'' \<mapsto> js_or (get cert ''key'') (JStr ''''),
       ''time'' \<mapsto> js_or (get cert ''time'') (JStr (isoString env now)),
       ''autoRenewal'' \<mapsto>
          (if get cert ''autoRenewal'' \<noteq> JUndefined then get cert ''autoRenewal''
           else JBool True),
       ''renewalStatus'' \<mapsto> js_or (get cert ''renewalStatus'') (JStr ''idle''),
       ''lastRenewalAttempt'' \<mapsto> js_or (get cert ''lastRenewalAttempt'') JNull ]"

definition scanCertificates :: "date_env \<Rightarrow> int \<Rightarrow> storage \<Rightarrow> jsobj list" where
  "scanCertificates env now st =
     (case ls_manageDataPairs st of
        Absent \<Rightarrow> []
      | Malformed \<Rightarrow> []
      | Doc certificates \<Rightarrow>
          map (\<lambda>(index, cert). scan_entry env now index cert) (enumerate 0 certificates))"

definition getExpiryDate :: "date_env \<Rightarrow> jsobj \<Rightarrow> int option" where
  "getExpiryDate env cert =
     (case newDate env (get cert ''time'') of
        None \<Rightarrow> None
      | Some issueDate \<Rightarrow> setDate_getDate_plus env issueDate 90)"

definition getDaysUntilExpiry :: "date_env \<Rightarrow> int \<Rightarrow> jsobj \<Rightarrow> int option" where
  "getDaysUntilExpiry env now cert =
     (case getExpiryDate env cert of
        None \<Rightarrow> None
      | Some expiryDate \<Rightarrow>
          (let diffTime = expiryDate - now
           in Some \<lceil>real_of_int diffTime / real_of_int (1000 * 60 * 60 * 24)\<rceil>))"

definition getCertificateStatus :: "date_env \<Rightarrow> int \<Rightarrow> jsobj \<Rightarrow> int \<Rightarrow> string" where
  "getCertificateStatus env now cert threshold =
     (let daysUntilExpiry = getDaysUntilExpiry env now cert in
      if num_le daysUntilExpiry 0 then ''expired''
      else if num_le daysUntilExpiry threshold then ''needs_renewal''
      else ''valid'')"

definition isExpired :: "date_env \<Rightarrow> int \<Rightarrow> jsobj \<Rightarrow> bool" where
  "isExpired env now cert =
     (case getExpiryDate env cert of None \<Rightarrow> False | Some expiryDate \<Rightarrow> now > expiryDate)"

fun detect_loop :: "date_env \<Rightarrow> int \<Rightarrow> int \<Rightarrow> jsobj list \<Rightarrow> jsobj list" where
  "detect_loop env now threshold [] = []"
| "detect_loop env now threshold (cert # certificates) =
     (let status = getCertificateStatus env now cert threshold in
      if status = ''needs_renewal'' \<or> status = ''expired''
      then (cert ++ [ ''status'' \<mapsto> JStr status,
                      ''daysUntilExpiry'' \<mapsto> num_of (getDaysUntilExpiry env now cert) ])
           # detect_loop env now threshold certificates
      else detect_loop env now threshold certificates)"

definition detectExpiringCertificates :: "date_env \<Rightarrow> int \<Rightarrow> int \<Rightarrow> storage \<Rightarrow> jsobj list" where
  "detectExpiringCertificates env now threshold st =
     detect_loop env now threshold (scanCertificates env now st)"

text \<open>
  \<^verbatim>\<open>updateCertificate(id, updates)\<close>: the whole scanned array, with the entry at \<open>id\<close>
  merged with the updates, is what \<^verbatim>\<open>JSON.stringify\<close> writes back.
\<close>

definition updateCertificate :: "date_env \<Rightarrow> int \<Rightarrow> int \<Rightarrow> jsobj \<Rightarrow> storage \<Rightarrow> storage" where
  "updateCertificate env now ident updates st =
     (let certificates = scanCertificates env now st in
      if ident \<ge> 0 \<and> ident < int (length certificates)
      then st\<lparr> ls_manageDataPairs :=
                 Doc (map stringify_obj
                        (certificates[nat ident := (certificates ! nat ident) ++ updates])) \<rparr>
      else st)"

section \<open>ACMEClient\<close>

text \<open>
  A thrown value is an \<^verbatim>\<open>Error\<close> with its message, or the value with which the external
  key parser rejects, which carries no \<^verbatim>\<open>message\<close>.
\<close>

datatype thrown = Error string | Raw string

text \<open>
  The external ACME engine (\<^verbatim>\<open>window.ACME\<close>, \<^verbatim>\<open>window.X509\<close>) as the answers it gives in
  one attempt. A step answers through its success callback (\<open>None\<close>) or through its error
  callback with an error text. \<open>auths\<close> is \<^verbatim>\<open>ACME.StepData.auths\<close> after the order step:
  the domains with their authorization status, in the order \<^verbatim>\<open>for ... in\<close> visits them.
  \<open>downloadPEM\<close> is \<^verbatim>\<open>ACME.StepData.order.downloadPEM\<close> after the finalize step.
  \<open>keyParse\<close> is \<^verbatim>\<open>X509.KeyParse\<close>: it rejects with some value or resolves with a key,
  of which the client reads the PEM text only.
  \<open>typeErrorMessage\<close> is the text of the host's \<^verbatim>\<open>TypeError\<close> for a method call on
  \<^verbatim>\<open>undefined\<close>, \<open>syntaxErrorMessage\<close> that of a failed \<^verbatim>\<open>JSON.parse\<close>.
  The engine is taken to answer every step it is asked, and a step that answers through
  its success callback to have filled in what the client reads next from
  \<^verbatim>\<open>ACME.DirData\<close> and \<^verbatim>\<open>ACME.StepData\<close> (the account, the order, the authorizations).
\<close>

record acme_engine =
  acme_available :: bool
  x509_available :: bool
  keyParse :: "string \<Rightarrow> string + string"
  directory :: "string option"
  stepAccount :: "string option"
  stepOrder :: "string option"
  auths :: "(string \<times> string) list"
  stepFinalizeOrder :: "string option"
  downloadPEM :: "string option"
  typeErrorMessage :: string
  syntaxErrorMessage :: string

record acme_client =
  isRenewing :: bool

record acme_config =
  c_domains :: "string list"
  c_privateKey :: string
  c_accountKey :: string
  c_email :: string
  c_acmeURL :: string
  c_eabKid :: string
  c_eabKey :: string

record renewed =
  r_domains :: jsval
  r_cert :: string
  r_key :: string
  r_time :: int

text \<open>The object that \<^verbatim>\<open>renewCertificate\<close> resolves to; a property that the returned
  object does not have is \<open>None\<close> (\<open>False\<close> for the flag \<^verbatim>\<open>inProgress\<close>).\<close>

record outcome =
  o_success :: bool
  o_requiresManual :: bool
  o_inProgress :: bool
  o_message :: "string option"
  o_error :: "string option"
  o_authorizationsNeeded :: "string list option"
  o_renewalUrl :: "string option"
  o_hint :: "string option"
  o_certificate :: "renewed option"

definition item_truthy :: "string option \<Rightarrow> bool" where
  "item_truthy v = (case v of None \<Rightarrow> False | Some s \<Rightarrow> s \<noteq> [])"

definition checkRenewalCapability :: "storage \<Rightarrow> bool \<times> string" where
  "checkRenewalCapability st =
     (let acmeAccountKey = ls_acmeAccountKey st; userEmail = ls_email st in
      (item_truthy acmeAccountKey \<and> item_truthy userEmail,
       if \<not> item_truthy acmeAccountKey
       then ''ACME account key not configured. Please complete initial certificate setup first.''
       else if \<not> item_truthy userEmail
       then ''Email not configured. Please complete initial certificate setup first.''
       else ''Ready for renewal''))"

definition validateCertificate :: "jsobj \<Rightarrow> bool \<times> string list" where
  "validateCertificate certificate =
     (let errors = [];
          errors = (if \<not> truthy (get certificate ''domains'')
                    then errors @ [''Missing domains''] else errors);
          errors = (if \<not> truthy (get certificate ''cert'')
                    then errors @ [''Missing certificate data''] else errors);
          errors = (if \<not> truthy (get certificate ''key'')
                    then errors @ [''Missing private key''] else errors);
          errors = (if \<not> truthy (get certificate ''time'')
                    then errors @ [''Missing certificate timestamp''] else errors)
      in (length errors = 0, errors))"

text \<open>\<^verbatim>\<open>split(',')\<close> and \<^verbatim>\<open>trim()\<close>, the latter for the white space of ASCII.\<close>

definition is_space :: "char \<Rightarrow> bool" where
  "is_space c = (c \<in> set [CHR '' '', CHR 0x09, CHR 0x0A, CHR 0x0B, CHR 0x0C, CHR 0x0D])"

definition trim :: "string \<Rightarrow> string" where
  "trim s = rev (dropWhile is_space (rev (dropWhile is_space s)))"

fun split_comma :: "string \<Rightarrow> string list" where
  "split_comma [] = [[]]"
| "split_comma (c # cs) =
     (if c = CHR '','' then [] # split_comma cs
      else (case split_comma cs of [] \<Rightarrow> [[c]] | w # ws \<Rightarrow> (c # w) # ws))"

definition item_or :: "string option \<Rightarrow> string \<Rightarrow> string" where
  "item_or v dflt = (case v of None \<Rightarrow> dflt | Some s \<Rightarrow> if s = [] then dflt else s)"

definition parse_domains :: "jsval \<Rightarrow> thrown + string list" where
  "parse_domains v =
     (case v of
        JStr s \<Rightarrow> Inr (map trim (split_comma s))
      | JArr ds \<Rightarrow> Inr ds
      | _ \<Rightarrow> Inl (Error ''Invalid domains format''))"

definition loadConfiguration :: "acme_engine \<Rightarrow> storage \<Rightarrow> jsobj \<Rightarrow> thrown + acme_config" where
  "loadConfiguration eng st certificate =
     (case ls_acmeAccountKey st of
        None \<Rightarrow>
          Inl (Error ''ACME account key not found. Please complete initial certificate setup.'')
      | Some accountKeyPEM \<Rightarrow>
     (if accountKeyPEM = []
      then Inl (Error ''ACME account key not found. Please complete initial certificate setup.'')
      else
     (case ls_email st of
        None \<Rightarrow> Inl (Error ''Email not configured. Please complete initial certificate setup.'')
      | Some email \<Rightarrow>
     (if email = []
      then Inl (Error ''Email not configured. Please complete initial certificate setup.'')
      else
     (case keyParse eng accountKeyPEM of
        Inl rejection \<Rightarrow> Inl (Raw rejection)
      | Inr accountKey \<Rightarrow>
     (if \<not> truthy (get certificate ''key'')
      then Inl (Error ''Certificate private key not found'')
      else
     (case keyParse eng (js_to_string (get certificate ''key'')) of
        Inl rejection \<Rightarrow> Inl (Raw rejection)
      | Inr privateKey \<Rightarrow>
     (case parse_domains (get certificate ''domains'') of
        Inl e \<Rightarrow> Inl e
      | Inr domains \<Rightarrow>
          Inr \<lparr> c_domains = domains, c_privateKey = privateKey, c_accountKey = accountKey,
                c_email = email,
                c_acmeURL = item_or (ls_acmeURL st)
                              ''https://acme-v02.api.letsencrypt.org/directory'',
                c_eabKid = '''', c_eabKey = '''' \<rparr>))))))))"

fun auth_loop :: "(string \<times> string) list \<Rightarrow> bool \<times> string list \<Rightarrow> bool \<times> string list" where
  "auth_loop [] acc = acc"
| "auth_loop ((domain, status) # rest) (allValid, pendingDomains) =
     (if status \<noteq> ''valid'' then auth_loop rest (False, pendingDomains @ [domain])
      else auth_loop rest (allValid, pendingDomains))"

definition checkAuthorizationStatus :: "(string \<times> string) list \<Rightarrow> bool \<times> string list" where
  "checkAuthorizationStatus as = auth_loop as (True, [])"

fun findIndex :: "('a \<Rightarrow> bool) \<Rightarrow> 'a list \<Rightarrow> nat option" where
  "findIndex p [] = None"
| "findIndex p (x # xs) =
     (if p x then Some 0 else (case findIndex p xs of None \<Rightarrow> None | Some i \<Rightarrow> Some (Suc i)))"

text \<open>\<^verbatim>\<open>storeCertificate\<close> reads and writes the key \<^verbatim>\<open>q-certs\<close>.\<close>

definition storeCertificate ::
  "acme_engine \<Rightarrow> int \<Rightarrow> jsobj \<Rightarrow> string \<Rightarrow> string \<Rightarrow> storage \<Rightarrow> thrown + storage" where
  "storeCertificate eng now oldCert newCertPEM privateKeyPEM st =
     (case ls_certs st of
        Absent \<Rightarrow> Inl (Error ''Certificate storage not found'')
      | Malformed \<Rightarrow> Inl (Error (syntaxErrorMessage eng))
      | Doc certs \<Rightarrow>
          (case findIndex (\<lambda>c. strict_eq (get c ''domains'') (get oldCert ''domains'')
                               \<or> strict_eq (get c ''time'') (get oldCert ''time'')) certs of
             None \<Rightarrow> Inl (Error ''Original certificate not found in storage'')
           | Some certIndex \<Rightarrow>
               Inr (st\<lparr> ls_certs := Doc (map stringify_obj
                     (certs[certIndex := (certs ! certIndex) ++
                        [ ''cert'' \<mapsto> JStr newCertPEM,
                          ''key'' \<mapsto> JStr privateKeyPEM,
                          ''time'' \<mapsto> JNum now,
                          ''renewalStatus'' \<mapsto> JStr ''success'',
                          ''lastRenewalSuccess'' \<mapsto> JNum now,
                          ''autoRenewed'' \<mapsto> JBool True ]])) \<rparr>)))"

definition renewalUrl_of :: "jsobj \<Rightarrow> string" where
  "renewalUrl_of certificate =
     ''/?autoRenew=1&domain='' @ encodeURIComponent (js_to_string (get certificate ''domains''))"

definition no_outcome :: outcome where
  "no_outcome = \<lparr> o_success = False, o_requiresManual = False, o_inProgress = False,
                   o_message = None, o_error = None, o_authorizationsNeeded = None,
                   o_renewalUrl = None, o_hint = None, o_certificate = None \<rparr>"

text \<open>
  The body of the inner \<^verbatim>\<open>try\<close>, in three parts: each returns an outcome or throws,
  and gives the store as it leaves it and the engine steps it has invoked, in order.
  First the steps 6 to 8, which run when every authorization is valid.
\<close>

definition finalize_and_store ::
  "acme_engine \<Rightarrow> int \<Rightarrow> jsobj \<Rightarrow> acme_config \<Rightarrow> storage
     \<Rightarrow> (thrown + outcome) \<times> storage \<times> string list" where
  "finalize_and_store eng now certificate config st =
     (case stepFinalizeOrder eng of
        Some err \<Rightarrow>
          (Inl (Error (''Order finalization failed: '' @ err)), st, [''StepFinalizeOrder''])
      | None \<Rightarrow>
          (if \<not> item_truthy (downloadPEM eng)
           then (Inl (Error ''Certificate download failed - no PEM data''), st,
                 [''StepFinalizeOrder''])
           else
             (let newCertPEM = item_or (downloadPEM eng) [] in
              case storeCertificate eng now certificate newCertPEM (c_privateKey config) st of
                Inl e \<Rightarrow> (Inl e, st, [''StepFinalizeOrder''])
              | Inr st' \<Rightarrow>
                  (Inr (no_outcome\<lparr>
                     o_success := True,
                     o_requiresManual := False,
                     o_message :=
                       Some ''Certificate renewed automatically using cached authorizations'',
                     o_certificate :=
                       Some \<lparr> r_domains = get certificate ''domains'', r_cert = newCertPEM,
                              r_key = c_privateKey config, r_time = now \<rparr> \<rparr>),
                   st', [''StepFinalizeOrder'']))))"

text \<open>Step 5, the decision on the authorizations.\<close>

definition check_authorizations ::
  "acme_engine \<Rightarrow> int \<Rightarrow> jsobj \<Rightarrow> acme_config \<Rightarrow> storage
     \<Rightarrow> (thrown + outcome) \<times> storage \<times> string list" where
  "check_authorizations eng now certificate config st =
     (let (allValid, pendingDomains) = checkAuthorizationStatus (auths eng) in
      if \<not> allValid
      then (Inr (no_outcome\<lparr>
               o_success := False,
               o_requiresManual := True,
               o_message := Some ''Authorization cache expired (>30 days since last validation). Manual domain verification required.'',
               o_authorizationsNeeded := Some pendingDomains,
               o_renewalUrl := Some (renewalUrl_of certificate),
               o_hint := Some ''Please complete domain verification through the web interface, or wait until within 30 days of last validation.'' \<rparr>),
            st, [])
      else finalize_and_store eng now certificate config st)"

text \<open>The availability checks and the steps 1 to 4, then the rest.\<close>

definition renewal_steps ::
  "acme_engine \<Rightarrow> int \<Rightarrow> jsobj \<Rightarrow> storage \<Rightarrow> (thrown + outcome) \<times> storage \<times> string list" where
  "renewal_steps eng now certificate st =
     (if \<not> acme_available eng
      then (Inl (Error ''ACME client not available. Please ensure core.js is loaded.''), st, [])
      else if \<not> x509_available eng
      then (Inl (Error ''X509 utilities not available. Please ensure core.js is loaded.''), st, [])
      else
     (case loadConfiguration eng st certificate of
        Inl e \<Rightarrow> (Inl e, st, [])
      | Inr config \<Rightarrow>
     (case directory eng of
        Some err \<Rightarrow>
          (Inl (Error (''Failed to load ACME directory: '' @ err)), st, [''Directory''])
      | None \<Rightarrow>
     (case stepAccount eng of
        Some err \<Rightarrow>
          (Inl (Error (''ACME account error: '' @ err)), st, [''Directory'', ''StepAccount''])
      | None \<Rightarrow>
     (case stepOrder eng of
        Some err \<Rightarrow>
          (Inl (Error (''Order creation failed: '' @ err)), st,
           [''Directory'', ''StepAccount'', ''StepOrder''])
      | None \<Rightarrow>
          (case check_authorizations eng now certificate config st of
             (r, st', steps) \<Rightarrow>
               (r, st', [''Directory'', ''StepAccount'', ''StepOrder''] @ steps)))))))"

text \<open>The inner \<^verbatim>\<open>catch\<close>: an error whose message speaks of authorizations becomes a
  manual outcome; any other is thrown again; reading \<^verbatim>\<open>message.includes\<close> of a value
  without a message is a \<^verbatim>\<open>TypeError\<close>, thrown from the handler.\<close>

definition inner_catch :: "acme_engine \<Rightarrow> jsobj \<Rightarrow> thrown \<Rightarrow> thrown + outcome" where
  "inner_catch eng certificate e =
     (case e of
        Error m \<Rightarrow>
          if str_includes m ''authorization'' \<or> str_includes m ''pending''
             \<or> str_includes m ''invalid''
          then Inr (no_outcome\<lparr>
                 o_success := False,
                 o_requiresManual := True,
                 o_message := Some ''Authorization verification required. Authorizations may have expired.'',
                 o_error := Some m,
                 o_renewalUrl := Some (renewalUrl_of certificate) \<rparr>)
          else Inl (Error m)
      | Raw v \<Rightarrow> Inl (Error (typeErrorMessage eng)))"

definition outer_catch :: "thrown \<Rightarrow> outcome" where
  "outer_catch e =
     no_outcome\<lparr> o_success := False, o_requiresManual := True,
                 o_error := (case e of Error m \<Rightarrow> Some m | Raw v \<Rightarrow> None) \<rparr>"

text \<open>
  The outer \<^verbatim>\<open>try\<close> of \<^verbatim>\<open>renewCertificate\<close>, before its \<^verbatim>\<open>finally\<close>: an outcome or a
  thrown value, with the client, the store and the engine steps invoked. \<open>now\<close> is the
  reading of \<^verbatim>\<open>Date.now()\<close> when the certificate is stored. A client whose flag is set
  at the call stands for an instance on which another invocation is suspended at one of
  its awaits; the path from the call to the in-progress return has no await, so it
  runs without interruption.
\<close>

definition renew_try ::
  "acme_engine \<Rightarrow> int \<Rightarrow> jsobj \<Rightarrow> acme_client \<Rightarrow> storage
     \<Rightarrow> (thrown + outcome) \<times> acme_client \<times> storage \<times> string list" where
  "renew_try eng now certificate client st =
     (let (canAutoRenew, message) = checkRenewalCapability st in
      if \<not> canAutoRenew then (Inl (Error message), client, st, [])
      else
        let (valid, errors) = validateCertificate certificate in
        if \<not> valid
        then (Inl (Error (''Invalid certificate: '' @ js_join '', '' errors)), client, st, [])
        else if isRenewing client
        then (Inr (no_outcome\<lparr> o_success := False, o_requiresManual := False,
                                o_message := Some ''Renewal already in progress'',
                                o_inProgress := True \<rparr>),
              client, st, [])
        else
          let client = client\<lparr> isRenewing := True \<rparr> in
          case renewal_steps eng now certificate st of
            (Inr result, st', steps) \<Rightarrow> (Inr result, client, st', steps)
          | (Inl e, st', steps) \<Rightarrow> (inner_catch eng certificate e, client, st', steps))"

text \<open>\<^verbatim>\<open>renewCertificate\<close>: the outer \<^verbatim>\<open>catch\<close> turns what is still thrown into an
  outcome, and the \<^verbatim>\<open>finally\<close> clause clears the flag last, on every path.\<close>

definition renewCertificate ::
  "acme_engine \<Rightarrow> int \<Rightarrow> jsobj \<Rightarrow> acme_client \<Rightarrow> storage
     \<Rightarrow> outcome \<times> acme_client \<times> storage \<times> string list" where
  "renewCertificate eng now certificate client st =
     (case renew_try eng now certificate client st of
        (r, client', st', steps) \<Rightarrow>
          ((case r of Inr result \<Rightarrow> result | Inl e \<Rightarrow> outer_catch e),
           client'\<lparr> isRenewing := False \<rparr>, st', steps))"

section \<open>ConfigManager: writing\<close>

text \<open>
  \<^verbatim>\<open>saveAutoRenewalConfig\<close> refuses a threshold outside 1..60 and otherwise writes the
  configuration, every field present; its result tells whether it wrote.
\<close>

definition saveAutoRenewalConfig :: "config \<Rightarrow> storage \<Rightarrow> bool \<times> storage" where
  "saveAutoRenewalConfig config st =
     (if cfg_threshold config < 1 \<or> cfg_threshold config > 60 then (False, st)
      else (True,
            st\<lparr> ls_config :=
                  Doc \<lparr> cd_enabled = Some (cfg_enabled config),
                        cd_threshold = Some (cfg_threshold config),
                        cd_checkInterval = Some (cfg_checkInterval config),
                        cd_certSettings = Some (cfg_certSettings config) \<rparr> \<rparr>))"

definition updateLastCheck :: "int \<Rightarrow> string \<Rightarrow> storage \<Rightarrow> storage" where
  "updateLastCheck now domain st =
     (let config = getAutoRenewalConfig st;
          setting = (case cfg_certSettings config domain of
                       None \<Rightarrow> \<lparr> cs_enabled = Some True, cs_lastCheck = None,
                                  cs_lastRenewal = None \<rparr>
                     | Some s \<Rightarrow> s);
          config = config\<lparr> cfg_certSettings :=
                     (cfg_certSettings config)(domain \<mapsto> setting\<lparr> cs_lastCheck := Some now \<rparr>) \<rparr>
      in snd (saveAutoRenewalConfig config st))"

section \<open>RenewalScheduler\<close>

text \<open>
  The calls the scheduler makes to the notifier, with the domain and the text or number
  it passes; delivery is the notifier's business.
\<close>

datatype notify_call = NotifyExpiring jsval jsval | NotifyRenewalFailure jsval string

text \<open>
  What a scheduler owns and acts on: the store, its \<^verbatim>\<open>ACMEClient\<close>, the set of domains
  already notified, and, for the record, the notifier calls made and the engine steps
  invoked so far (oldest first).
\<close>

record scheduler =
  sch_storage :: storage
  sch_acmeClient :: acme_client
  sch_notifiedDomains :: "jsval set"
  sch_notifications :: "notify_call list"
  sch_steps :: "string list"

record renewal_job =
  job_id :: string
  job_domain :: jsval
  job_status :: string
  job_createdAt :: int
  job_startedAt :: "int option"
  job_completedAt :: "int option"
  job_error :: "string option"
  job_originalCert :: jsobj
  job_newCert :: "renewed option"
  job_renewalUrl :: "string option"

text \<open>
  What one job reads from the clock and from the random source: \<^verbatim>\<open>Date.now()\<close> before
  the renewal, inside it and after it, and the identifiers of the two history records.
\<close>

record job_inputs =
  t_start :: int
  t_renew :: int
  t_end :: int
  rid_start :: string
  rid_end :: string

definition createRenewalJob :: "string \<Rightarrow> int \<Rightarrow> jsobj \<Rightarrow> renewal_job" where
  "createRenewalJob jid now cert =
     \<lparr> job_id = jid, job_domain = get cert ''domains'', job_status = ''pending'',
       job_createdAt = now, job_startedAt = None, job_completedAt = None, job_error = None,
       job_originalCert = cert, job_newCert = None, job_renewalUrl = None \<rparr>"

text \<open>The scanner's update, called with the \<^verbatim>\<open>id\<close> property of a certificate: anything
  but a number is in no range.\<close>

definition updateCertificateById ::
  "date_env \<Rightarrow> int \<Rightarrow> jsval \<Rightarrow> jsobj \<Rightarrow> storage \<Rightarrow> storage" where
  "updateCertificateById env now ident updates st =
     (case ident of JNum n \<Rightarrow> updateCertificate env now n updates st | _ \<Rightarrow> st)"

definition opt_str :: "string option \<Rightarrow> jsval" where
  "opt_str v = (case v of None \<Rightarrow> JUndefined | Some s \<Rightarrow> JStr s)"

definition opt_text :: "string option \<Rightarrow> string" where
  "opt_text v = (case v of None \<Rightarrow> ''undefined'' | Some s \<Rightarrow> s)"

text \<open>The three branches on the result of the renewal.\<close>

definition job_succeeded ::
  "date_env \<Rightarrow> job_inputs \<Rightarrow> outcome \<Rightarrow> renewal_job \<times> scheduler \<Rightarrow> renewal_job \<times> scheduler" where
  "job_succeeded env inp renewalResult js =
     (case js of (job, sch) \<Rightarrow>
      let job = job\<lparr> job_status := ''completed'', job_completedAt := Some (t_end inp),
                     job_newCert := o_certificate renewalResult \<rparr>;
          st = updateCertificateById env (t_end inp) (get (job_originalCert job) ''id'')
                 [ ''renewalStatus'' \<mapsto> JStr ''success'',
                   ''lastRenewalSuccess'' \<mapsto> JNum (t_end inp) ]
                 (sch_storage sch);
          st = recordRenewal (rid_end inp) (t_end inp) (job_domain job) ''success'' None
                 (getExpiryDate env (job_originalCert job)) None st
      in (job, sch\<lparr> sch_storage := st,
                    sch_notifiedDomains := sch_notifiedDomains sch - {job_domain job} \<rparr>))"

definition job_manual ::
  "date_env \<Rightarrow> job_inputs \<Rightarrow> outcome \<Rightarrow> renewal_job \<times> scheduler \<Rightarrow> renewal_job \<times> scheduler" where
  "job_manual env inp renewalResult js =
     (case js of (job, sch) \<Rightarrow>
      let job = job\<lparr> job_status := ''manual_required'', job_completedAt := Some (t_end inp),
                     job_error := o_message renewalResult,
                     job_renewalUrl := o_renewalUrl renewalResult \<rparr>;
          st = updateCertificateById env (t_end inp) (get (job_originalCert job) ''id'')
                 [ ''renewalStatus'' \<mapsto> JStr ''manual_required'',
                   ''renewalUrl'' \<mapsto> opt_str (o_renewalUrl renewalResult) ]
                 (sch_storage sch);
          st = recordRenewal (rid_end inp) (t_end inp) (job_domain job) ''manual_required''
                 (o_message renewalResult) (getExpiryDate env (job_originalCert job)) None st
      in (job, sch\<lparr> sch_storage := st,
                    sch_notifications := sch_notifications sch @
                      [NotifyRenewalFailure (job_domain job)
                         (''Manual renewal required: '' @ opt_text (o_message renewalResult)
                          @ [CHR 0x0A] @ ''Please visit: ''
                          @ opt_text (o_renewalUrl renewalResult))] \<rparr>))"

definition job_failed ::
  "date_env \<Rightarrow> job_inputs \<Rightarrow> outcome \<Rightarrow> renewal_job \<times> scheduler \<Rightarrow> renewal_job \<times> scheduler" where
  "job_failed env inp renewalResult js =
     (case js of (job, sch) \<Rightarrow>
      let errorMsg = item_or (o_error renewalResult) ''Unknown error occurred'';
          job = job\<lparr> job_status := ''failure'', job_completedAt := Some (t_end inp),
                     job_error := Some errorMsg \<rparr>;
          st = updateCertificateById env (t_end inp) (get (job_originalCert job) ''id'')
                 [ ''renewalStatus'' \<mapsto> JStr ''failure'' ]
                 (sch_storage sch);
          st = recordRenewal (rid_end inp) (t_end inp) (job_domain job) ''failure''
                 (Some errorMsg) (getExpiryDate env (job_originalCert job)) None st
      in (job, sch\<lparr> sch_storage := st,
                    sch_notifications := sch_notifications sch @
                      [NotifyRenewalFailure (job_domain job) errorMsg] \<rparr>))"

text \<open>
  \<^verbatim>\<open>executeRenewalJob\<close>. Every callee catches its own errors, so the \<^verbatim>\<open>catch\<close> clause
  of the job is not entered.
\<close>

definition executeRenewalJob ::
  "date_env \<Rightarrow> acme_engine \<Rightarrow> job_inputs \<Rightarrow> renewal_job \<Rightarrow> scheduler
     \<Rightarrow> renewal_job \<times> scheduler" where
  "executeRenewalJob env eng inp job sch =
     (let job = job\<lparr> job_status := ''in_progress'', job_startedAt := Some (t_start inp) \<rparr>;
          st = updateCertificateById env (t_start inp) (get (job_originalCert job) ''id'')
                 [ ''renewalStatus'' \<mapsto> JStr ''in_progress'',
                   ''lastRenewalAttempt'' \<mapsto> JNum (t_start inp) ]
                 (sch_storage sch);
          st = recordRenewal (rid_start inp) (t_start inp) (job_domain job) ''in_progress'' None
                 (getExpiryDate env (job_originalCert job)) None st
      in case renewCertificate eng (t_renew inp) (job_originalCert job) (sch_acmeClient sch) st of
           (renewalResult, client, st, steps) \<Rightarrow>
             (let sch = sch\<lparr> sch_storage := st, sch_acmeClient := client,
                              sch_steps := sch_steps sch @ steps \<rparr>;
                  (job, sch) =
                    (if o_success renewalResult then job_succeeded env inp renewalResult (job, sch)
                     else if o_requiresManual renewalResult
                     then job_manual env inp renewalResult (job, sch)
                     else job_failed env inp renewalResult (job, sch))
              in (job, sch\<lparr> sch_storage :=
                    updateLastCheck (t_end inp) (js_to_string (job_domain job))
                      (sch_storage sch) \<rparr>)))"

section \<open>Example data\<close>

text \<open>
  A host in the UTC time zone that parses one timestamp, an engine whose every step
  succeeds and finds every authorization valid, and a store with two certificates, the
  first issued on 2023-10-28, 65 days before the clock reading 1704067200000
  (2024-01-01).
\<close>

definition example_env :: date_env where
  "example_env =
     \<lparr> parseDate = (\<lambda>s. if s = ''2024-01-01T00:00:00.000Z'' then Some 1704067200000 else None),
       isoString = (\<lambda>t. if t = 1704067200000 then ''2024-01-01T00:00:00.000Z'' else ''''),
       localTZA = (\<lambda>t isUTC. 0) \<rparr>"

definition example_engine :: acme_engine where
  "example_engine =
     \<lparr> acme_available = True, x509_available = True,
       keyParse = (\<lambda>pem. Inr pem),
       directory = None, stepAccount = None, stepOrder = None,
       auths = [(''a.example'', ''valid'')],
       stepFinalizeOrder = None,
       downloadPEM = Some ''NEW-CERT-A'',
       typeErrorMessage = ''Cannot read properties of undefined'',
       syntaxErrorMessage = ''Unexpected token'' \<rparr>"

definition example_cert_a :: jsobj where
  "example_cert_a =
     [ ''domains'' \<mapsto> JStr ''a.example'', ''cert'' \<mapsto> JStr ''OLD-CERT-A'',
       ''key'' \<mapsto> JStr ''KEY-A'', ''time'' \<mapsto> JNum 1698451200000,
       ''renewalStatus'' \<mapsto> JStr ''manual_required'',
       ''renewalUrl'' \<mapsto> JStr ''/?autoRenew=1&domain=a.example'',
       ''lastRenewalSuccess'' \<mapsto> JNum 1690000000000 ]"

definition example_cert_b :: jsobj where
  "example_cert_b =
     [ ''domains'' \<mapsto> JStr ''b.example'', ''cert'' \<mapsto> JStr ''OLD-CERT-B'',
       ''key'' \<mapsto> JStr ''KEY-B'', ''time'' \<mapsto> JNum 1701388800000 ]"

definition example_storage :: storage where
  "example_storage =
     \<lparr> ls_manageDataPairs = Doc [example_cert_a, example_cert_b],
       ls_certs = Doc [example_cert_a, example_cert_b],
       ls_history = Absent,
       ls_config = Doc \<lparr> cd_enabled = Some True, cd_threshold = Some 30,
                         cd_checkInterval = None, cd_certSettings = None \<rparr>,
       ls_acmeAccountKey = Some ''ACCOUNT-KEY'',
       ls_email = Some ''admin@a.example'',
       ls_acmeURL = None \<rparr>"

definition example_inputs :: job_inputs where
  "example_inputs = \<lparr> t_start = 1704067200000, t_renew = 1704067201000,
                       t_end = 1704067202000, rid_start = ''r1'', rid_end = ''r2'' \<rparr>"

definition example_scheduler :: "bool \<Rightarrow> scheduler" where
  "example_scheduler renewing =
     \<lparr> sch_storage = example_storage, sch_acmeClient = \<lparr> isRenewing = renewing \<rparr>,
       sch_notifiedDomains = {JStr ''a.example''}, sch_notifications = [], sch_steps = [] \<rparr>"

definition example_job :: renewal_job where
  "example_job =
     createRenewalJob ''renewal-1'' 1704067200000
       (hd (detectExpiringCertificates example_env 1704067200000 30 example_storage))"

text \<open>The \<open>n\<close>-th of a series of history records of two domains, made at the
  time \<open>n\<close>.\<close>

definition example_call :: "nat \<Rightarrow> history_record" where
  "example_call n =
     \<lparr> hr_id = number_to_string (int n),
       hr_domain = JStr (if n mod 3 = 0 then ''a.example'' else ''b.example''),
       hr_timestamp = int n,
       hr_status = (if even n then ''in_progress'' else ''failure''),
       hr_error = (if even n then None else Some ''boom''),
       hr_oldExpiry = Some 1706227200000, hr_newExpiry = None \<rparr>"

text \<open>The property names of the scanner's schema.\<close>

definition schema_fields :: "string set" where
  "schema_fields = {''id'', ''domains'', ''cert'', ''key'', ''time'', ''autoRenewal'',
                    ''renewalStatus'', ''lastRenewalAttempt''}"

text \<open>Reading a property of the record at an index of the collection stored under
  \<^verbatim>\<open>q-manageDataPairs\<close>, and under \<^verbatim>\<open>q-certs\<close>.\<close>

definition manage_field :: "storage \<Rightarrow> nat \<Rightarrow> string \<Rightarrow> jsval" where
  "manage_field st i f =
     (case ls_manageDataPairs st of
        Doc cs \<Rightarrow> (if i < length cs then get (cs ! i) f else JUndefined)
      | _ \<Rightarrow> JUndefined)"

definition certs_field :: "storage \<Rightarrow> nat \<Rightarrow> string \<Rightarrow> jsval" where
  "certs_field st i f =
     (case ls_certs st of
        Doc cs \<Rightarrow> (if i < length cs then get (cs ! i) f else JUndefined)
      | _ \<Rightarrow> JUndefined)"

section \<open>The history bound\<close>

lemma getHistory_recordRenewal:
  "getHistory (recordRenewal rid now domain status err oldExpiry newExpiry st) =
     take MAX_RECORDS
       (\<lparr> hr_id = rid, hr_domain = domain, hr_timestamp = now, hr_status = status,
           hr_error = err, hr_oldExpiry = oldExpiry, hr_newExpiry = newExpiry \<rparr>
        # getHistory st)"
  by (simp add: recordRenewal_def getHistory_def Let_def)

lemma getHistory_recordCall:
  "getHistory (recordCall r st) = take MAX_RECORDS (r # getHistory st)"
  by (cases r) (simp add: recordCall_def getHistory_recordRenewal)

lemma take_Cons_take:
  "0 < n \<Longrightarrow> take n (r # take n xs) = take n (r # xs)"
  by (cases n) (simp_all add: min_def take_Suc_conv_app_nth)

lemma getHistory_recordRenewals:
  "calls \<noteq> [] \<Longrightarrow>
   getHistory (recordRenewals calls st) = take MAX_RECORDS (rev calls @ getHistory st)"
proof (induction calls arbitrary: st)
  case Nil
  then show ?case by simp
next
  case (Cons c cs)
  show ?case
  proof (cases "cs = []")
    case True
    then show ?thesis
      by (simp add: recordRenewals_def getHistory_recordCall)
  next
    case False
    have "getHistory (recordRenewals (c # cs) st) = getHistory (recordRenewals cs (recordCall c st))"
      by (simp add: recordRenewals_def)
    also have "\<dots> = take MAX_RECORDS (rev cs @ take MAX_RECORDS (c # getHistory st))"
      using Cons.IH [OF False] by (simp add: getHistory_recordCall)
    also have "\<dots> = take MAX_RECORDS (rev cs @ c # getHistory st)"
      by (simp add: take_add min_def)
    finally show ?thesis by simp
  qed
qed

text \<open>
  Claim C7. After any non-empty sequence of \<^verbatim>\<open>recordRenewal\<close> calls, whatever the store
  held before (nothing, a malformed document, or a list of any length), the history has
  at most 10 records in total, counted over all domains; the record of the most recent
  call is at index 0; and the list is the newest-first sequence of the calls followed by
  the old records, cut after 10, so that what is evicted is evicted from the tail.
\<close>

theorem recordRenewal_bounded_newest_first:
  assumes "calls \<noteq> []"
  shows "length (getHistory (recordRenewals calls st)) \<le> 10
       \<and> getHistory (recordRenewals calls st) ! 0 = last calls
       \<and> getHistory (recordRenewals calls st) = take 10 (rev calls @ getHistory st)"
proof -
  have eq: "getHistory (recordRenewals calls st) = take 10 (rev calls @ getHistory st)"
    using getHistory_recordRenewals [OF assms] by (simp add: MAX_RECORDS_def)
  have "rev calls \<noteq> []" using assms by simp
  then obtain x xs where rc: "rev calls = x # xs" by (cases "rev calls") auto
  then have x: "x = last calls" using assms by (metis hd_rev list.sel(1))
  have hd: "take 10 (rev calls @ getHistory st) ! 0 = last calls"
    unfolding rc x by simp
  have len: "length (take 10 (rev calls @ getHistory st)) \<le> 10" by simp
  show ?thesis unfolding eq using len hd by blast
qed

theorem recordRenewal_bounded_newest_first_witness:
  "map example_call [0, 1, 2, 3, 4, 5, 6, 7, 8, 9, 10, 11] \<noteq> []
   \<and> length (getHistory (recordRenewals (map example_call [0, 1, 2, 3, 4, 5, 6, 7, 8, 9, 10, 11])
                (example_storage\<lparr> ls_history := Doc [example_call 100] \<rparr>))) = 10
   \<and> getHistory (recordRenewals (map example_call [0, 1, 2, 3, 4, 5, 6, 7, 8, 9, 10, 11])
         (example_storage\<lparr> ls_history := Doc [example_call 100] \<rparr>)) ! 0 = example_call 11
   \<and> map hr_timestamp
         (getHistory (recordRenewals (map example_call [0, 1, 2, 3, 4, 5, 6, 7, 8, 9, 10, 11])
            (example_storage\<lparr> ls_history := Doc [example_call 100] \<rparr>)))
       = [11, 10, 9, 8, 7, 6, 5, 4, 3, 2]"
proof -
  let ?calls = "map example_call [0, 1, 2, 3, 4, 5, 6, 7, 8, 9, 10, 11]"
  let ?st = "example_storage\<lparr> ls_history := Doc [example_call 100] \<rparr>"
  have ne: "?calls \<noteq> []" by simp
  have old: "getHistory ?st = [example_call 100]" by (simp add: getHistory_def)
  have ts: "hr_timestamp (example_call n) = int n" for n by (simp add: example_call_def)
  note t = recordRenewal_bounded_newest_first [OF ne, of ?st]
  from t have eq: "getHistory (recordRenewals ?calls ?st) = take 10 (rev ?calls @ getHistory ?st)"
    by blast
  have "getHistory (recordRenewals ?calls ?st) =
          map example_call [11, 10, 9, 8, 7, 6, 5, 4, 3, 2]"
    unfolding eq old by simp
  with ne show ?thesis by (simp add: ts)
qed

section \<open>Domain eligibility\<close>

text \<open>
  Claim C8. For every persisted configuration and every domain: when the document's
  global \<^verbatim>\<open>enabled\<close> is false or missing (the default is false), or no readable
  document is stored at all, \<^verbatim>\<open>isCertAutoRenewalEnabled\<close> is false whatever the
  per-domain settings hold; when it is true, a per-domain entry with
  \<^verbatim>\<open>enabled = false\<close> yields false, and the absence of an entry for the domain yields
  true.
\<close>

theorem isCertAutoRenewalEnabled_global_then_domain:
  "(ls_config st = Absent \<or> ls_config st = Malformed
       \<longrightarrow> \<not> isCertAutoRenewalEnabled st d)
   \<and> (ls_config st = Doc c \<and> cd_enabled c \<noteq> Some True
       \<longrightarrow> \<not> isCertAutoRenewalEnabled st d)
   \<and> (ls_config st = Doc c \<and> cd_enabled c = Some True \<and> cd_certSettings c = Some m
        \<and> m d = Some s \<and> cs_enabled s = Some False
       \<longrightarrow> \<not> isCertAutoRenewalEnabled st d)
   \<and> (ls_config st = Doc c \<and> cd_enabled c = Some True \<and> cd_certSettings c = Some m
        \<and> m d = None
       \<longrightarrow> isCertAutoRenewalEnabled st d)
   \<and> (ls_config st = Doc c \<and> cd_enabled c = Some True \<and> cd_certSettings c = None
       \<longrightarrow> isCertAutoRenewalEnabled st d)"
  by (cases "cd_enabled c")
     (auto simp: isCertAutoRenewalEnabled_def getAutoRenewalConfig_def merge_config_def
                 getDefaultConfig_def Let_def)

theorem isCertAutoRenewalEnabled_global_then_domain_witness:
  "ls_config (example_storage\<lparr> ls_config := Absent \<rparr>) = Absent
   \<and> \<not> isCertAutoRenewalEnabled (example_storage\<lparr> ls_config := Absent \<rparr>) ''a.example''
   \<and> cd_enabled \<lparr> cd_enabled = Some False, cd_threshold = Some 30, cd_checkInterval = None,
                  cd_certSettings = Some [''a.example'' \<mapsto>
                    \<lparr> cs_enabled = Some True, cs_lastCheck = None, cs_lastRenewal = None \<rparr>] \<rparr>
     \<noteq> Some True
   \<and> \<not> isCertAutoRenewalEnabled
         (example_storage\<lparr> ls_config := Doc
            \<lparr> cd_enabled = Some False, cd_threshold = Some 30, cd_checkInterval = None,
              cd_certSettings = Some [''a.example'' \<mapsto>
                \<lparr> cs_enabled = Some True, cs_lastCheck = None, cs_lastRenewal = None \<rparr>] \<rparr> \<rparr>)
         ''a.example''
   \<and> \<not> isCertAutoRenewalEnabled
         (example_storage\<lparr> ls_config := Doc
            \<lparr> cd_enabled = Some True, cd_threshold = Some 30, cd_checkInterval = None,
              cd_certSettings = Some [''a.example'' \<mapsto>
                \<lparr> cs_enabled = Some False, cs_lastCheck = None, cs_lastRenewal = None \<rparr>] \<rparr> \<rparr>)
         ''a.example''
   \<and> isCertAutoRenewalEnabled
         (example_storage\<lparr> ls_config := Doc
            \<lparr> cd_enabled = Some True, cd_threshold = Some 30, cd_checkInterval = None,
              cd_certSettings = Some [''a.example'' \<mapsto>
                \<lparr> cs_enabled = Some False, cs_lastCheck = None, cs_lastRenewal = None \<rparr>] \<rparr> \<rparr>)
         ''b.example''
   \<and> isCertAutoRenewalEnabled example_storage ''a.example''"
proof -
  let ?on = "\<lparr> cs_enabled = Some True, cs_lastCheck = None, cs_lastRenewal = None \<rparr>"
  let ?off = "\<lparr> cs_enabled = Some False, cs_lastCheck = None, cs_lastRenewal = None \<rparr>"
  let ?c1 = "\<lparr> cd_enabled = Some False, cd_threshold = Some 30, cd_checkInterval = None,
               cd_certSettings = Some [''a.example'' \<mapsto> ?on] \<rparr>"
  let ?c2 = "\<lparr> cd_enabled = Some True, cd_threshold = Some 30, cd_checkInterval = None,
               cd_certSettings = Some [''a.example'' \<mapsto> ?off] \<rparr>"
  let ?c3 = "\<lparr> cd_enabled = Some True, cd_threshold = Some 30, cd_checkInterval = None,
               cd_certSettings = None \<rparr>"
  have s0: "ls_config (example_storage\<lparr> ls_config := Absent \<rparr>) = Absent" by simp
  have s1: "ls_config (example_storage\<lparr> ls_config := Doc ?c1 \<rparr>) = Doc ?c1" by simp
  have s2: "ls_config (example_storage\<lparr> ls_config := Doc ?c2 \<rparr>) = Doc ?c2" by simp
  have s3: "ls_config example_storage = Doc ?c3" by (simp add: example_storage_def)
  have g: "cd_enabled ?c1 \<noteq> Some True" by simp
  have z: "\<not> isCertAutoRenewalEnabled (example_storage\<lparr> ls_config := Absent \<rparr>) ''a.example''"
    using s0 isCertAutoRenewalEnabled_global_then_domain
            [of "example_storage\<lparr> ls_config := Absent \<rparr>" "''a.example''"]
    by simp
  have a: "\<not> isCertAutoRenewalEnabled (example_storage\<lparr> ls_config := Doc ?c1 \<rparr>) ''a.example''"
    using s1 g isCertAutoRenewalEnabled_global_then_domain
            [of "example_storage\<lparr> ls_config := Doc ?c1 \<rparr>" "''a.example''" ?c1]
    by simp
  have b: "\<not> isCertAutoRenewalEnabled (example_storage\<lparr> ls_config := Doc ?c2 \<rparr>) ''a.example''"
    using s2 isCertAutoRenewalEnabled_global_then_domain
            [of "example_storage\<lparr> ls_config := Doc ?c2 \<rparr>" "''a.example''" ?c2
                "[''a.example'' \<mapsto> ?off]" ?off]
    by simp
  have c: "isCertAutoRenewalEnabled (example_storage\<lparr> ls_config := Doc ?c2 \<rparr>) ''b.example''"
    using s2 isCertAutoRenewalEnabled_global_then_domain
            [of "example_storage\<lparr> ls_config := Doc ?c2 \<rparr>" "''b.example''" ?c2
                "[''a.example'' \<mapsto> ?off]"]
    by simp
  have d: "isCertAutoRenewalEnabled example_storage ''a.example''"
    using s3 isCertAutoRenewalEnabled_global_then_domain
            [of example_storage "''a.example''" ?c3]
    by simp
  from s0 z g a b c d show ?thesis by blast
qed

section \<open>The renewal client: helper facts\<close>

lemma no_outcome_flag: "\<not> o_inProgress no_outcome"
  by (simp add: no_outcome_def)

lemma finalize_and_store_not_inProgress:
  "finalize_and_store eng now certificate config st = (Inr r, st', steps) \<Longrightarrow> \<not> o_inProgress r"
  by (auto simp: finalize_and_store_def no_outcome_def Let_def split: option.splits if_splits sum.splits)

lemma check_authorizations_not_inProgress:
  "check_authorizations eng now certificate config st = (Inr r, st', steps) \<Longrightarrow> \<not> o_inProgress r"
  by (auto simp: check_authorizations_def no_outcome_def Let_def
           split: prod.splits if_splits dest: finalize_and_store_not_inProgress)

lemma renewal_steps_not_inProgress:
  "renewal_steps eng now certificate st = (Inr r, st', steps) \<Longrightarrow> \<not> o_inProgress r"
  by (auto simp: renewal_steps_def split: if_splits sum.splits option.splits prod.splits
           dest: check_authorizations_not_inProgress)

lemma inner_catch_not_inProgress:
  "inner_catch eng certificate e = Inr r \<Longrightarrow> \<not> o_inProgress r"
  by (auto simp: inner_catch_def no_outcome_def split: thrown.splits if_splits)

lemma outer_catch_not_inProgress: "\<not> o_inProgress (outer_catch e)"
  by (simp add: outer_catch_def no_outcome_def)

lemma renew_try_not_inProgress:
  "\<not> isRenewing client \<Longrightarrow> renew_try eng now certificate client st = (Inr r, c', st', steps)
     \<Longrightarrow> \<not> o_inProgress r"
  by (auto simp: renew_try_def Let_def split: prod.splits if_splits sum.splits
           dest: renewal_steps_not_inProgress inner_catch_not_inProgress)

lemma renewCertificate_not_blocked:
  "\<not> isRenewing client \<Longrightarrow> \<not> o_inProgress (fst (renewCertificate eng now certificate client st))"
  by (auto simp: renewCertificate_def outer_catch_not_inProgress split: prod.splits sum.splits
           dest: renew_try_not_inProgress)

lemma renewCertificate_clears_flag:
  "isRenewing (fst (snd (renewCertificate eng now certificate client st))) = False"
  by (simp add: renewCertificate_def split: prod.splits)

lemma renewCertificate_guard:
  assumes "fst (checkRenewalCapability st)" and "fst (validateCertificate certificate)"
    and "isRenewing client"
  shows "renewCertificate eng now certificate client st =
           (no_outcome\<lparr> o_success := False, o_requiresManual := False,
                        o_message := Some ''Renewal already in progress'',
                        o_inProgress := True \<rparr>,
            client\<lparr> isRenewing := False \<rparr>, st, [])"
  using assms
  by (cases "checkRenewalCapability st"; cases "validateCertificate certificate")
     (simp add: renewCertificate_def renew_try_def Let_def)

lemma renewCertificate_flag_set_frame:
  assumes "isRenewing client"
  shows "snd (snd (renewCertificate eng now certificate client st)) = (st, [])"
  using assms
  by (cases "checkRenewalCapability st"; cases "validateCertificate certificate")
     (simp add: renewCertificate_def renew_try_def Let_def)




section \<open>The re-entry flag\<close>

text \<open>
  Claim C10. Whenever an invocation of \<^verbatim>\<open>renewCertificate\<close> returns, whatever its
  inputs and whichever path it took, the instance's \<^verbatim>\<open>isRenewing\<close> flag is false: the
  \<^verbatim>\<open>finally\<close> clause clears it. This includes the invocation that found the flag set
  (another renewal suspended at one of its awaits) and returned the in-progress outcome.
  Consequently the next invocation on the client that any invocation leaves behind is
  not answered with the in-progress outcome: it is no longer blocked.
\<close>

theorem renewCertificate_returns_with_flag_cleared:
  "\<not> isRenewing (fst (snd (renewCertificate eng now certificate client st)))
   \<and> \<not> o_inProgress (fst (renewCertificate eng2 now2 certificate2
                             (fst (snd (renewCertificate eng now certificate client st))) st2))
   \<and> (isRenewing client \<and> fst (checkRenewalCapability st)
         \<and> fst (validateCertificate certificate)
       \<longrightarrow> o_inProgress (fst (renewCertificate eng now certificate client st)))"
proof -
  have cleared: "\<not> isRenewing (fst (snd (renewCertificate eng now certificate client st)))"
    by (simp add: renewCertificate_clears_flag)
  have "o_inProgress (fst (renewCertificate eng now certificate client st))"
    if "isRenewing client" "fst (checkRenewalCapability st)"
       "fst (validateCertificate certificate)"
    using renewCertificate_guard [OF that(2,3,1)] by simp
  with cleared renewCertificate_not_blocked [OF cleared] show ?thesis by blast
qed

theorem renewCertificate_returns_with_flag_cleared_witness:
  "isRenewing \<lparr> isRenewing = True \<rparr>
   \<and> fst (checkRenewalCapability example_storage)
   \<and> fst (validateCertificate example_cert_a)
   \<and> o_inProgress (fst (renewCertificate example_engine 1704067201000 example_cert_a
                          \<lparr> isRenewing = True \<rparr> example_storage))
   \<and> \<not> isRenewing (fst (snd (renewCertificate example_engine 1704067201000 example_cert_a
                                 \<lparr> isRenewing = True \<rparr> example_storage)))
   \<and> \<not> o_inProgress (fst (renewCertificate example_engine 1704067205000 example_cert_a
        (fst (snd (renewCertificate example_engine 1704067201000 example_cert_a
                     \<lparr> isRenewing = True \<rparr> example_storage)))
        example_storage))"
proof -
  have c: "fst (checkRenewalCapability example_storage)"
    by (simp add: checkRenewalCapability_def example_storage_def item_truthy_def)
  have v: "fst (validateCertificate example_cert_a)"
    by (simp add: validateCertificate_def example_cert_a_def get_def)
  show ?thesis
    using c v
      renewCertificate_returns_with_flag_cleared
        [of example_engine 1704067201000 example_cert_a "\<lparr> isRenewing = True \<rparr>"
            example_storage example_engine 1704067205000 example_cert_a example_storage]
    by simp
qed

section \<open>The re-entry guard\<close>

text \<open>
  Claim C6, as stated, fails: the capability check and the validation of the certificate
  come before the guard, so an invocation that finds the flag set but is given a
  certificate without a private key returns the validation error, not the in-progress
  outcome.
\<close>

theorem renewCertificate_flag_set_invalid_certificate_counterexample:
  "isRenewing \<lparr> isRenewing = True \<rparr>
   \<and> \<not> o_inProgress (fst (renewCertificate example_engine 1704067201000
                            (example_cert_b(''key'' := None))
                            \<lparr> isRenewing = True \<rparr> example_storage))
   \<and> o_error (fst (renewCertificate example_engine 1704067201000
                      (example_cert_b(''key'' := None))
                      \<lparr> isRenewing = True \<rparr> example_storage))
       = Some ''Invalid certificate: Missing private key''"
  by (simp add: renewCertificate_def renew_try_def checkRenewalCapability_def
        validateCertificate_def example_storage_def example_cert_b_def item_truthy_def
        get_def outer_catch_def no_outcome_def Let_def)

text \<open>
  Claim C6, amended. If \<^verbatim>\<open>renewCertificate\<close> is invoked while the instance's flag is set,
  it leaves the whole store (certificates and history included) as it found it and
  invokes no step of the ACME engine; and if the account key and the email are
  configured and the certificate passes validation, what it returns is the in-progress
  outcome.
\<close>

theorem renewCertificate_reentry_guard:
  assumes "isRenewing client"
  shows "fst (snd (snd (renewCertificate eng now certificate client st))) = st
       \<and> snd (snd (snd (renewCertificate eng now certificate client st))) = []
       \<and> (fst (checkRenewalCapability st) \<and> fst (validateCertificate certificate)
           \<longrightarrow> fst (renewCertificate eng now certificate client st) =
                 no_outcome\<lparr> o_success := False, o_requiresManual := False,
                              o_message := Some ''Renewal already in progress'',
                              o_inProgress := True \<rparr>)"
proof -
  have "snd (snd (renewCertificate eng now certificate client st)) = (st, [])"
    using assms by (rule renewCertificate_flag_set_frame)
  moreover have "fst (renewCertificate eng now certificate client st) =
      no_outcome\<lparr> o_success := False, o_requiresManual := False,
                   o_message := Some ''Renewal already in progress'', o_inProgress := True \<rparr>"
    if "fst (checkRenewalCapability st)" "fst (validateCertificate certificate)"
    using renewCertificate_guard [OF that assms] by simp
  ultimately show ?thesis by simp
qed

theorem renewCertificate_reentry_guard_witness:
  "isRenewing \<lparr> isRenewing = True \<rparr>
   \<and> fst (checkRenewalCapability example_storage)
   \<and> fst (validateCertificate example_cert_a)
   \<and> fst (snd (snd (renewCertificate example_engine 1704067201000 example_cert_a
                       \<lparr> isRenewing = True \<rparr> example_storage))) = example_storage
   \<and> snd (snd (snd (renewCertificate example_engine 1704067201000 example_cert_a
                       \<lparr> isRenewing = True \<rparr> example_storage))) = []
   \<and> o_inProgress (fst (renewCertificate example_engine 1704067201000 example_cert_a
                          \<lparr> isRenewing = True \<rparr> example_storage))"
proof -
  have r: "isRenewing \<lparr> isRenewing = True \<rparr>" by simp
  have c: "fst (checkRenewalCapability example_storage)"
    by (simp add: checkRenewalCapability_def example_storage_def item_truthy_def)
  have v: "fst (validateCertificate example_cert_a)"
    by (simp add: validateCertificate_def example_cert_a_def get_def)
  show ?thesis
    using c v
      renewCertificate_reentry_guard
        [OF r, of example_engine 1704067201000 example_cert_a example_storage]
    by (simp add: no_outcome_def)
qed

section \<open>The decision on the authorizations\<close>











text \<open>
  The step after the finalize step stores the certificate under \<^verbatim>\<open>q-certs\<close>. On a store
  that holds the certificates under \<^verbatim>\<open>q-manageDataPairs\<close> only, an attempt whose every
  engine step succeeds, with every authorization valid and the PEM present, ends in
  that step: the outcome is not a success and its error is the text of
  \<^verbatim>\<open>storeCertificate\<close> for a missing collection.
\<close>

lemma renewCertificate_without_q_certs:
  "ls_manageDataPairs (example_storage\<lparr> ls_certs := Absent \<rparr>)
     = Doc [example_cert_a, example_cert_b]
   \<and> snd (snd (snd (renewCertificate example_engine 1704067201000 example_cert_a
                       \<lparr> isRenewing = False \<rparr> (example_storage\<lparr> ls_certs := Absent \<rparr>))))
       = [''Directory'', ''StepAccount'', ''StepOrder'', ''StepFinalizeOrder'']
   \<and> \<not> o_success (fst (renewCertificate example_engine 1704067201000 example_cert_a
                         \<lparr> isRenewing = False \<rparr> (example_storage\<lparr> ls_certs := Absent \<rparr>)))
   \<and> o_error (fst (renewCertificate example_engine 1704067201000 example_cert_a
                      \<lparr> isRenewing = False \<rparr> (example_storage\<lparr> ls_certs := Absent \<rparr>)))
       = Some ''Certificate storage not found''"
  by (simp add: renewCertificate_def renew_try_def renewal_steps_def check_authorizations_def
        finalize_and_store_def checkAuthorizationStatus_def loadConfiguration_def
        parse_domains_def storeCertificate_def inner_catch_def outer_catch_def no_outcome_def
        checkRenewalCapability_def validateCertificate_def example_storage_def
        example_cert_a_def example_engine_def item_truthy_def item_or_def get_def Let_def)

section \<open>Expiry, days remaining and status\<close>

lemma getExpiryDate_eq:
  "getExpiryDate env cert =
     (case newDate env (get cert ''time'') of
        None \<Rightarrow> None
      | Some issuedAt \<Rightarrow> TimeClip (UTC env (LocalTime env issuedAt + 90 * msPerDay)))"
  by (simp add: getExpiryDate_def setDate_getDate_plus_def split: option.splits)

lemma getDaysUntilExpiry_eq:
  "getDaysUntilExpiry env now cert =
     (case getExpiryDate env cert of
        None \<Rightarrow> None
      | Some expiryDate \<Rightarrow> Some \<lceil>real_of_int (expiryDate - now) / real_of_int msPerDay\<rceil>)"
  by (simp add: getDaysUntilExpiry_def msPerDay_def Let_def split: option.splits)

lemma getCertificateStatus_cases:
  "(getCertificateStatus env now cert threshold = ''expired''
        \<longleftrightarrow> num_le (getDaysUntilExpiry env now cert) 0)
   \<and> (getCertificateStatus env now cert threshold = ''needs_renewal''
        \<longleftrightarrow> \<not> num_le (getDaysUntilExpiry env now cert) 0
            \<and> num_le (getDaysUntilExpiry env now cert) threshold)
   \<and> (getCertificateStatus env now cert threshold = ''valid''
        \<longleftrightarrow> \<not> num_le (getDaysUntilExpiry env now cert) 0
            \<and> \<not> num_le (getDaysUntilExpiry env now cert) threshold)"
  by (simp add: getCertificateStatus_def Let_def)

lemma getExpiryDate_fixed_offset:
  assumes "newDate env (get cert ''time'') = Some issuedAt"
    and "\<forall>t b. localTZA env t b = offset"
    and "\<bar>issuedAt + 90 * msPerDay\<bar> \<le> 8640000000000000"
  shows "getExpiryDate env cert = Some (issuedAt + 90 * msPerDay)"
  using assms by (simp add: getExpiryDate_eq TimeClip_def UTC_def LocalTime_def)

lemma ceiling_days_iff:
  "(\<lceil>real_of_int a / 86400000\<rceil> = d) = ((d - 1) * 86400000 < a \<and> a \<le> d * 86400000)"
proof -
  have "(\<lceil>real_of_int a / 86400000\<rceil> = d)
          = (real_of_int d - 1 < real_of_int a / 86400000 \<and> real_of_int a / 86400000 \<le> real_of_int d)"
    by (rule ceiling_eq_iff)
  also have "\<dots> = (real_of_int ((d - 1) * 86400000) < real_of_int a
                    \<and> real_of_int a \<le> real_of_int (d * 86400000))"
    by (simp add: pos_less_divide_eq pos_divide_le_eq)
  also have "\<dots> = ((d - 1) * 86400000 < a \<and> a \<le> d * 86400000)"
    by (simp only: of_int_less_iff of_int_le_iff)
  finally show ?thesis .
qed

text \<open>
  Claim C3. For every certificate record, clock reading and threshold: the expiry date
  is the issuance date moved forward by 90 days of the local calendar (invalid when the
  issuance date is); \<^verbatim>\<open>daysUntilExpiry\<close> is the ceiling of the expiry date minus now,
  divided by one day (\<^verbatim>\<open>NaN\<close> when the expiry date is invalid); and the status is
  \<^verbatim>\<open>expired\<close> iff \<^verbatim>\<open>daysUntilExpiry <= 0\<close>, otherwise \<^verbatim>\<open>needs_renewal\<close> iff
  \<^verbatim>\<open>daysUntilExpiry <= threshold\<close>, otherwise \<^verbatim>\<open>valid\<close>, with the comparisons of the
  language. In a time zone of constant offset, and within the range of dates, the
  expiry date is the issuance date plus 90 times 86400000 milliseconds, and the number
  of days is the least integer \<open>d\<close> with expiry minus now at most \<open>d\<close> days.
\<close>

theorem daysUntilExpiry_ceiling_and_status:
  "getExpiryDate env cert =
     (case newDate env (get cert ''time'') of
        None \<Rightarrow> None
      | Some issuedAt \<Rightarrow> TimeClip (UTC env (LocalTime env issuedAt + 90 * msPerDay)))
   \<and> getDaysUntilExpiry env now cert =
     (case getExpiryDate env cert of
        None \<Rightarrow> None
      | Some expiryDate \<Rightarrow> Some \<lceil>real_of_int (expiryDate - now) / real_of_int msPerDay\<rceil>)
   \<and> (getCertificateStatus env now cert threshold = ''expired''
        \<longleftrightarrow> num_le (getDaysUntilExpiry env now cert) 0)
   \<and> (getCertificateStatus env now cert threshold = ''needs_renewal''
        \<longleftrightarrow> \<not> num_le (getDaysUntilExpiry env now cert) 0
            \<and> num_le (getDaysUntilExpiry env now cert) threshold)
   \<and> (getCertificateStatus env now cert threshold = ''valid''
        \<longleftrightarrow> \<not> num_le (getDaysUntilExpiry env now cert) 0
            \<and> \<not> num_le (getDaysUntilExpiry env now cert) threshold)
   \<and> (newDate env (get cert ''time'') = Some issuedAt
        \<and> (\<forall>t b. localTZA env t b = offset)
        \<and> \<bar>issuedAt + 90 * msPerDay\<bar> \<le> 8640000000000000
       \<longrightarrow> getDaysUntilExpiry env now cert =
             Some \<lceil>real_of_int (issuedAt + 90 * 86400000 - now) / 86400000\<rceil>
         \<and> (\<forall>d. getDaysUntilExpiry env now cert = Some d
                \<longleftrightarrow> (d - 1) * 86400000 < issuedAt + 90 * 86400000 - now
                    \<and> issuedAt + 90 * 86400000 - now \<le> d * 86400000)
         \<and> (getCertificateStatus env now cert threshold = ''expired''
              \<longleftrightarrow> issuedAt + 90 * 86400000 \<le> now))"
proof -
  have fixed: "getDaysUntilExpiry env now cert =
             Some \<lceil>real_of_int (issuedAt + 90 * 86400000 - now) / 86400000\<rceil>
         \<and> (\<forall>d. getDaysUntilExpiry env now cert = Some d
                \<longleftrightarrow> (d - 1) * 86400000 < issuedAt + 90 * 86400000 - now
                    \<and> issuedAt + 90 * 86400000 - now \<le> d * 86400000)
         \<and> (getCertificateStatus env now cert threshold = ''expired''
              \<longleftrightarrow> issuedAt + 90 * 86400000 \<le> now)"
    if h: "newDate env (get cert ''time'') = Some issuedAt"
          "\<forall>t b. localTZA env t b = offset"
          "\<bar>issuedAt + 90 * msPerDay\<bar> \<le> 8640000000000000"
  proof -
    have e: "getExpiryDate env cert = Some (issuedAt + 90 * msPerDay)"
      using h by (rule getExpiryDate_fixed_offset)
    have d: "getDaysUntilExpiry env now cert =
               Some \<lceil>real_of_int (issuedAt + 90 * 86400000 - now) / 86400000\<rceil>"
      by (simp add: getDaysUntilExpiry_eq e msPerDay_def)
    have c: "(\<lceil>real_of_int a / 86400000\<rceil> \<le> 0) = (a \<le> 0)" for a :: int
      by (simp add: ceiling_le_iff divide_le_0_iff)
    have "(\<lceil>real_of_int (issuedAt + 90 * 86400000 - now) / 86400000\<rceil> \<le> 0)
            = (issuedAt + 90 * 86400000 \<le> now)"
      unfolding c by arith
    then have x: "(getCertificateStatus env now cert threshold = ''expired'')
                    = (issuedAt + 90 * 86400000 \<le> now)"
      using d getCertificateStatus_cases [of env now cert threshold]
      by (simp add: num_le_def)
    have k: "\<forall>d. getDaysUntilExpiry env now cert = Some d
                \<longleftrightarrow> (d - 1) * 86400000 < issuedAt + 90 * 86400000 - now
                    \<and> issuedAt + 90 * 86400000 - now \<le> d * 86400000"
      by (simp only: d option.inject ceiling_days_iff) blast
    from d k x show ?thesis by blast
  qed
  show ?thesis
    using getExpiryDate_eq [of env cert] getDaysUntilExpiry_eq [of env now cert]
      getCertificateStatus_cases [of env now cert threshold] fixed
    by blast
qed

theorem daysUntilExpiry_ceiling_and_status_witness:
  "newDate example_env (get example_cert_a ''time'') = Some 1698451200000
   \<and> (\<forall>t b. localTZA example_env t b = 0)
   \<and> \<bar>1698451200000 + 90 * msPerDay\<bar> \<le> 8640000000000000
   \<and> getDaysUntilExpiry example_env 1704067200000 example_cert_a = Some 25
   \<and> getCertificateStatus example_env 1704067200000 example_cert_a 30 = ''needs_renewal''
   \<and> getCertificateStatus example_env 1704067200000 example_cert_a 30 \<noteq> ''expired''"
proof -
  have n: "newDate example_env (get example_cert_a ''time'') = Some 1698451200000"
    by (simp add: example_cert_a_def get_def TimeClip_def)
  have z: "\<forall>t b. localTZA example_env t b = 0"
    by (simp add: example_env_def)
  have r: "\<bar>1698451200000 + 90 * msPerDay\<bar> \<le> 8640000000000000"
    by (simp add: msPerDay_def)
  have s: "getCertificateStatus example_env 1704067200000 example_cert_a 30 = ''needs_renewal''"
    using n z r
      daysUntilExpiry_ceiling_and_status
        [of example_env example_cert_a 1704067200000 30 1698451200000 0]
    by (simp add: num_le_def msPerDay_def TimeClip_def UTC_def LocalTime_def)
  show ?thesis
    using n z r s
      daysUntilExpiry_ceiling_and_status
        [of example_env example_cert_a 1704067200000 30 1698451200000 0]
    by (simp add: num_le_def msPerDay_def TimeClip_def UTC_def LocalTime_def)
qed

section \<open>A malformed issuance timestamp\<close>

text \<open>
  Claim C4, as stated, fails: a record whose \<^verbatim>\<open>time\<close> is a text that does not parse as a
  date keeps that text through \<^verbatim>\<open>scanCertificates\<close>; its expiry date is invalid, the
  number of days is \<^verbatim>\<open>NaN\<close>, both comparisons are false and the status is \<^verbatim>\<open>valid\<close>,
  not \<^verbatim>\<open>needs_renewal\<close>; the record is not among the expiring ones.
\<close>

theorem malformed_time_status_counterexample:
  "parseDate example_env ''not a date'' = None
   \<and> map (\<lambda>c. getCertificateStatus example_env 1704067200000 c 30)
        (scanCertificates example_env 1704067200000
           (example_storage\<lparr> ls_manageDataPairs :=
              Doc [example_cert_a(''time'' \<mapsto> JStr ''not a date'')] \<rparr>))
       = [''valid'']
   \<and> ''valid'' \<noteq> ''needs_renewal''
   \<and> detectExpiringCertificates example_env 1704067200000 30
        (example_storage\<lparr> ls_manageDataPairs :=
           Doc [example_cert_a(''time'' \<mapsto> JStr ''not a date'')] \<rparr>) = []"
  by (simp add: detectExpiringCertificates_def scanCertificates_def scan_entry_def
        getCertificateStatus_def getDaysUntilExpiry_def getExpiryDate_def num_le_def
        example_env_def example_storage_def example_cert_a_def get_def js_or_def Let_def)

text \<open>
  Claim C4, amended. For every certificate record whose \<^verbatim>\<open>time\<close> is present but is a
  text that does not parse as a date, the expiry computation does not fail: on the
  scanned record the expiry date is invalid, \<^verbatim>\<open>daysUntilExpiry\<close> is \<^verbatim>\<open>NaN\<close>, and the
  status is \<^verbatim>\<open>valid\<close> at every clock reading and for every threshold, so the
  record is never reported as expiring.
\<close>

theorem malformed_time_is_classified_valid:
  assumes "get cert ''time'' = JStr s" and "s \<noteq> []" and "parseDate env s = None"
  shows "getExpiryDate env (scan_entry env t0 i cert) = None
       \<and> getDaysUntilExpiry env now (scan_entry env t0 i cert) = None
       \<and> getCertificateStatus env now (scan_entry env t0 i cert) threshold = ''valid''
       \<and> detect_loop env now threshold [scan_entry env t0 i cert] = []"
proof -
  have t: "get (scan_entry env t0 i cert) ''time'' = JStr s"
    using assms(1,2) by (simp add: scan_entry_def get_def js_or_def)
  have e: "getExpiryDate env (scan_entry env t0 i cert) = None"
    using assms(3) by (simp add: getExpiryDate_def t)
  have d: "getDaysUntilExpiry env now (scan_entry env t0 i cert) = None"
    by (simp add: getDaysUntilExpiry_def e)
  have v: "getCertificateStatus env now (scan_entry env t0 i cert) threshold = ''valid''"
    by (simp add: getCertificateStatus_def d num_le_def)
  show ?thesis using e d v by simp
qed

theorem malformed_time_is_classified_valid_witness:
  "get (example_cert_a(''time'' \<mapsto> JStr ''not a date'')) ''time'' = JStr ''not a date''
   \<and> ''not a date'' \<noteq> []
   \<and> parseDate example_env ''not a date'' = None
   \<and> getDaysUntilExpiry example_env 1704067200000
        (scan_entry example_env 1704067200000 0
           (example_cert_a(''time'' \<mapsto> JStr ''not a date''))) = None
   \<and> getCertificateStatus example_env 1704067200000
        (scan_entry example_env 1704067200000 0
           (example_cert_a(''time'' \<mapsto> JStr ''not a date''))) 30 = ''valid''"
proof -
  have g: "get (example_cert_a(''time'' \<mapsto> JStr ''not a date'')) ''time'' = JStr ''not a date''"
    by (simp add: get_def)
  have ne: "''not a date'' \<noteq> []" by simp
  have p: "parseDate example_env ''not a date'' = None"
    by (simp add: example_env_def)
  show ?thesis
    using g ne p
      malformed_time_is_classified_valid
        [OF g ne p, of 1704067200000 0 1704067200000 30]
    by simp
qed

section \<open>What an update writes back\<close>

lemma scan_entry_outside: "f \<notin> schema_fields \<Longrightarrow> scan_entry env now j c f = None"
  by (simp add: scan_entry_def schema_fields_def)

lemma js_or_defined: "b \<noteq> JUndefined \<Longrightarrow> js_or a b \<noteq> JUndefined"
  by (cases a) (auto simp: js_or_def)

lemma scan_entry_inside:
  "f \<in> schema_fields \<Longrightarrow> \<exists>v. scan_entry env now j c f = Some v \<and> v \<noteq> JUndefined"
  by (auto simp: scan_entry_def schema_fields_def js_or_defined)

lemma scan_entry_fields:
  "scan_entry env now j c ''id'' = Some (JNum (int j))"
  "scan_entry env now j c ''domains'' = Some (js_or (get c ''domains'') (JStr []))"
  "scan_entry env now j c ''cert'' = Some (js_or (get c ''cert'') (JStr []))"
  "scan_entry env now j c ''key'' = Some (js_or (get c ''key'') (JStr []))"
  "scan_entry env now j c ''time'' = Some (js_or (get c ''time'') (JStr (isoString env now)))"
  "scan_entry env now j c ''autoRenewal'' =
     Some (if get c ''autoRenewal'' \<noteq> JUndefined then get c ''autoRenewal'' else JBool True)"
  "scan_entry env now j c ''renewalStatus'' =
     Some (js_or (get c ''renewalStatus'') (JStr ''idle''))"
  "scan_entry env now j c ''lastRenewalAttempt'' =
     Some (js_or (get c ''lastRenewalAttempt'') JNull)"
  by (simp_all add: scan_entry_def)

lemma scan_entry_default:
  assumes "c f = None"
  shows "scan_entry env now j c f = scan_entry env now j Map.empty f"
proof (cases "f \<in> schema_fields")
  case False
  then show ?thesis by (simp add: scan_entry_outside)
next
  case True
  then have "f = ''id'' \<or> f = ''domains'' \<or> f = ''cert'' \<or> f = ''key''
    \<or> f = ''time'' \<or> f = ''autoRenewal'' \<or> f = ''renewalStatus''
    \<or> f = ''lastRenewalAttempt''"
    by (simp add: schema_fields_def)
  then show ?thesis
    using assms by (elim disjE) (simp_all add: scan_entry_fields get_def)
qed

lemma stringify_obj_None: "obj f = None \<Longrightarrow> stringify_obj obj f = None"
  by (simp add: stringify_obj_def)

lemma stringify_obj_Some:
  "obj f = Some v \<Longrightarrow> v \<noteq> JUndefined \<Longrightarrow> stringify_obj obj f \<noteq> None"
  by (cases v) (simp_all add: stringify_obj_def)

lemma scanCertificates_Doc:
  "ls_manageDataPairs st = Doc certs \<Longrightarrow>
   scanCertificates env now st =
     map (\<lambda>(index, cert). scan_entry env now index cert) (enumerate 0 certs)"
  by (simp add: scanCertificates_def)

lemma scanCertificates_nth:
  "ls_manageDataPairs st = Doc certs \<Longrightarrow> j < length certs \<Longrightarrow>
   scanCertificates env now st ! j = scan_entry env now j (certs ! j)"
  by (simp add: scanCertificates_Doc nth_enumerate_eq)

lemma scanCertificates_length:
  "ls_manageDataPairs st = Doc certs \<Longrightarrow> length (scanCertificates env now st) = length certs"
  by (simp add: scanCertificates_Doc)

lemma updateCertificate_stored:
  assumes "ls_manageDataPairs st = Doc certs" and "0 \<le> ident" and "ident < int (length certs)"
  shows "ls_manageDataPairs (updateCertificate env now ident updates st) =
           Doc (map stringify_obj
                  ((scanCertificates env now st)
                     [nat ident := scan_entry env now (nat ident) (certs ! nat ident) ++ updates]))"
  using assms
  by (simp add: updateCertificate_def Let_def scanCertificates_length scanCertificates_nth)

text \<open>
  Claim C9. When \<^verbatim>\<open>updateCertificate(id, updates)\<close> is applied (the store holds a
  collection and \<open>id\<close> is the index of one of its records), the collection it writes
  back has the same length and consists of the scanner's normalized records, the one at
  \<open>id\<close> merged with the updates. So in every stored record, at \<open>id\<close> or not, a
  property outside \<^verbatim>\<open>id\<close>, \<^verbatim>\<open>domains\<close>, \<^verbatim>\<open>cert\<close>, \<^verbatim>\<open>key\<close>, \<^verbatim>\<open>time\<close>, \<^verbatim>\<open>autoRenewal\<close>,
  \<^verbatim>\<open>renewalStatus\<close>, \<^verbatim>\<open>lastRenewalAttempt\<close> that this call's updates do not supply is
  gone, whatever the record held before; and every property of the schema is present,
  with the scanner's default where the record had none.
\<close>

theorem updateCertificate_normalizes_whole_collection:
  assumes "ls_manageDataPairs st = Doc certs" and "0 \<le> ident" and "ident < int (length certs)"
  shows "\<exists>stored. ls_manageDataPairs (updateCertificate env now ident updates st) = Doc stored
          \<and> length stored = length certs
          \<and> (\<forall>j<length certs. \<forall>f.
                (f \<notin> schema_fields \<and> (j \<noteq> nat ident \<or> updates f = None)
                    \<longrightarrow> (stored ! j) f = None)
              \<and> (f \<in> schema_fields \<and> (j \<noteq> nat ident \<or> updates f = None)
                    \<longrightarrow> (stored ! j) f = stringify_obj (scan_entry env now j (certs ! j)) f
                        \<and> (stored ! j) f \<noteq> None
                        \<and> ((certs ! j) f = None
                             \<longrightarrow> (stored ! j) f
                                   = stringify_obj (scan_entry env now j Map.empty) f))
              \<and> (j = nat ident
                    \<longrightarrow> stored ! j = stringify_obj (scan_entry env now j (certs ! j) ++ updates)))"
proof -
  let ?scanned = "scanCertificates env now st"
  let ?new = "scan_entry env now (nat ident) (certs ! nat ident) ++ updates"
  let ?stored = "map stringify_obj (?scanned[nat ident := ?new])"
  have len: "length ?scanned = length certs"
    using assms(1) by (rule scanCertificates_length)
  have other: "?stored ! j = stringify_obj (scan_entry env now j (certs ! j))"
    if "j < length certs" "j \<noteq> nat ident" for j
    using that len assms(1) by (simp add: scanCertificates_nth)
  have same: "?stored ! nat ident = stringify_obj ?new"
    using assms(2,3) len by simp
  have unchanged: "(?stored ! j) f = stringify_obj (scan_entry env now j (certs ! j)) f"
    if h: "j < length certs" "j \<noteq> nat ident \<or> updates f = None" for j f
  proof (cases "j = nat ident")
    case True
    with h(2) have "updates f = None" by simp
    then have "?new f = scan_entry env now (nat ident) (certs ! nat ident) f"
      by (simp add: map_add_def)
    then show ?thesis using same True by (simp add: stringify_obj_def)
  next
    case False
    then show ?thesis using other [OF h(1)] by simp
  qed
  have dropped: "(?stored ! j) f = None"
    if h: "j < length certs" "f \<notin> schema_fields" "j \<noteq> nat ident \<or> updates f = None" for j f
    using unchanged [OF h(1,3)] h(2) by (simp add: scan_entry_outside stringify_obj_None)
  have filled: "(?stored ! j) f \<noteq> None"
    if h: "j < length certs" "f \<in> schema_fields" "j \<noteq> nat ident \<or> updates f = None" for j f
  proof -
    obtain v where "scan_entry env now j (certs ! j) f = Some v" "v \<noteq> JUndefined"
      using scan_entry_inside [OF h(2)] by blast
    then show ?thesis using unchanged [OF h(1,3)] by (simp add: stringify_obj_Some)
  qed
  have dflt: "(?stored ! j) f = stringify_obj (scan_entry env now j Map.empty) f"
    if h: "j < length certs" "j \<noteq> nat ident \<or> updates f = None" "(certs ! j) f = None" for j f
    using unchanged [OF h(1,2)] h(3) scan_entry_default [of "certs ! j" f env now j]
    by (simp add: stringify_obj_def)
  have "ls_manageDataPairs (updateCertificate env now ident updates st) = Doc ?stored"
    using assms by (rule updateCertificate_stored)
  moreover have "length ?stored = length certs" using len by simp
  moreover have "\<forall>j<length certs. \<forall>f.
                (f \<notin> schema_fields \<and> (j \<noteq> nat ident \<or> updates f = None)
                    \<longrightarrow> (?stored ! j) f = None)
              \<and> (f \<in> schema_fields \<and> (j \<noteq> nat ident \<or> updates f = None)
                    \<longrightarrow> (?stored ! j) f = stringify_obj (scan_entry env now j (certs ! j)) f
                        \<and> (?stored ! j) f \<noteq> None
                        \<and> ((certs ! j) f = None
                             \<longrightarrow> (?stored ! j) f
                                   = stringify_obj (scan_entry env now j Map.empty) f))
              \<and> (j = nat ident
                    \<longrightarrow> ?stored ! j = stringify_obj (scan_entry env now j (certs ! j) ++ updates))"
    using dropped unchanged filled dflt same by blast
  ultimately show ?thesis by blast
qed

theorem updateCertificate_normalizes_whole_collection_witness:
  "ls_manageDataPairs example_storage = Doc [example_cert_a, example_cert_b]
   \<and> (0::int) \<le> 1 \<and> (1::int) < int (length [example_cert_a, example_cert_b])
   \<and> example_cert_a ''renewalUrl'' = Some (JStr ''/?autoRenew=1&domain=a.example'')
   \<and> example_cert_a ''lastRenewalSuccess'' = Some (JNum 1690000000000)
   \<and> (\<exists>stored.
        ls_manageDataPairs
          (updateCertificate example_env 1704067200000 1
             [ ''renewalStatus'' \<mapsto> JStr ''in_progress'',
               ''lastRenewalAttempt'' \<mapsto> JNum 1704067200000 ] example_storage) = Doc stored
        \<and> length stored = 2
        \<and> (stored ! 0) ''renewalUrl'' = None
        \<and> (stored ! 0) ''lastRenewalSuccess'' = None
        \<and> (stored ! 0) ''autoRenewal'' = Some (JBool True)
        \<and> (stored ! 0) ''lastRenewalAttempt'' = Some JNull
        \<and> (stored ! 1) ''renewalStatus'' = Some (JStr ''in_progress''))"
proof -
  let ?ups = "[ ''renewalStatus'' \<mapsto> JStr ''in_progress'',
                ''lastRenewalAttempt'' \<mapsto> JNum 1704067200000 ]"
  have d: "ls_manageDataPairs example_storage = Doc [example_cert_a, example_cert_b]"
    by (simp add: example_storage_def)
  have lo: "(0::int) \<le> 1" by simp
  have hi: "(1::int) < int (length [example_cert_a, example_cert_b])" by simp
  have olds: "example_cert_a ''renewalUrl'' = Some (JStr ''/?autoRenew=1&domain=a.example'')"
    "example_cert_a ''lastRenewalSuccess'' = Some (JNum 1690000000000)"
    by (simp_all add: example_cert_a_def)
  obtain stored where s:
    "ls_manageDataPairs (updateCertificate example_env 1704067200000 1 ?ups example_storage)
       = Doc stored"
    "length stored = length [example_cert_a, example_cert_b]"
    "\<forall>j<length [example_cert_a, example_cert_b]. \<forall>f.
        (f \<notin> schema_fields \<and> (j \<noteq> nat 1 \<or> ?ups f = None) \<longrightarrow> (stored ! j) f = None)
      \<and> (f \<in> schema_fields \<and> (j \<noteq> nat 1 \<or> ?ups f = None)
            \<longrightarrow> (stored ! j) f
                  = stringify_obj (scan_entry example_env 1704067200000 j
                                     ([example_cert_a, example_cert_b] ! j)) f
                \<and> (stored ! j) f \<noteq> None
                \<and> (([example_cert_a, example_cert_b] ! j) f = None
                     \<longrightarrow> (stored ! j) f
                           = stringify_obj (scan_entry example_env 1704067200000 j Map.empty) f))
      \<and> (j = nat 1
            \<longrightarrow> stored ! j
                  = stringify_obj (scan_entry example_env 1704067200000 j
                                     ([example_cert_a, example_cert_b] ! j) ++ ?ups))"
    using updateCertificate_normalizes_whole_collection
            [OF d lo hi, of example_env 1704067200000 ?ups]
    by blast
  have z: "(0::nat) < length [example_cert_a, example_cert_b]" by simp
  have o: "(1::nat) < length [example_cert_a, example_cert_b]" by simp
  have a: "(stored ! 0) ''renewalUrl'' = None" "(stored ! 0) ''lastRenewalSuccess'' = None"
    using s(3) [rule_format, OF z, of "''renewalUrl''"]
          s(3) [rule_format, OF z, of "''lastRenewalSuccess''"]
    by (simp_all add: schema_fields_def)
  have b: "(stored ! 0) ''autoRenewal'' = Some (JBool True)"
    "(stored ! 0) ''lastRenewalAttempt'' = Some JNull"
    using s(3) [rule_format, OF z, of "''autoRenewal''"]
          s(3) [rule_format, OF z, of "''lastRenewalAttempt''"]
    by (simp_all add: schema_fields_def example_cert_a_def scan_entry_def stringify_obj_def
          get_def js_or_def)
  have c: "(stored ! 1) ''renewalStatus'' = Some (JStr ''in_progress'')"
    using s(3) [rule_format, OF o, of "''renewalStatus''"]
    by (simp add: stringify_obj_def map_add_def)
  from d lo hi olds s(1,2) a b c show ?thesis by simp
qed

section \<open>What a job leaves in the store\<close>

text \<open>
  Claim C2, evaluated on a job whose renewal succeeds. The store holds the certificate
  of \<^verbatim>\<open>a.example\<close>, issued 65 days before, under both keys; every engine step succeeds
  and the new PEM is \<^verbatim>\<open>NEW-CERT-A\<close>. The job ends \<^verbatim>\<open>completed\<close> and carries the new
  certificate, but the record of the collection the scanner reads
  (\<^verbatim>\<open>q-manageDataPairs\<close>) has only its status set to \<^verbatim>\<open>success\<close>: its certificate is
  still the old PEM and its \<^verbatim>\<open>time\<close> the old issuance time. The new certificate and the
  completion time went to the collection under \<^verbatim>\<open>q-certs\<close>, the key that
  \<^verbatim>\<open>storeCertificate\<close> uses.
\<close>

theorem executeRenewalJob_success_keeps_old_certificate:
  "(case executeRenewalJob example_env example_engine example_inputs example_job
           (example_scheduler False) of
      (job, sch) \<Rightarrow>
        job_status job = ''completed''
      \<and> job_newCert job = Some \<lparr> r_domains = JStr ''a.example'', r_cert = ''NEW-CERT-A'',
                                  r_key = ''KEY-A'', r_time = 1704067201000 \<rparr>
      \<and> manage_field (sch_storage sch) 0 ''domains'' = JStr ''a.example''
      \<and> manage_field (sch_storage sch) 0 ''renewalStatus'' = JStr ''success''
      \<and> manage_field (sch_storage sch) 0 ''cert'' = JStr ''OLD-CERT-A''
      \<and> manage_field (sch_storage sch) 0 ''time'' = JNum 1698451200000
      \<and> certs_field (sch_storage sch) 0 ''cert'' = JStr ''NEW-CERT-A''
      \<and> certs_field (sch_storage sch) 0 ''time'' = JNum 1704067201000
      \<and> getCertificateStatus example_env 1704067202000
            (hd (scanCertificates example_env 1704067202000 (sch_storage sch))) 30
          = ''needs_renewal'')"
  by code_simp

text \<open>
  Claim C5, evaluated on a job that meets the re-entrant guard. The scheduler's client
  has its flag set (another renewal is suspended at an await), so the renewal returns
  the in-progress outcome without invoking any engine step. The job then takes the
  failure branch: the record of the store is set to \<^verbatim>\<open>failure\<close>, a \<^verbatim>\<open>failure\<close> record
  with the text \<^verbatim>\<open>Unknown error occurred\<close> is put at the head of the history, and the
  notifier is called.
\<close>

theorem executeRenewalJob_inProgress_recorded_as_failure:
  "o_inProgress (fst (renewCertificate example_engine 1704067201000
                        (job_originalCert example_job) \<lparr> isRenewing = True \<rparr> example_storage))
   \<and> (case executeRenewalJob example_env example_engine example_inputs example_job
              (example_scheduler True) of
         (job, sch) \<Rightarrow>
           sch_steps sch = []
         \<and> job_status job = ''failure''
         \<and> job_error job = Some ''Unknown error occurred''
         \<and> manage_field (sch_storage sch) 0 ''renewalStatus'' = JStr ''failure''
         \<and> map hr_status (getHistory (sch_storage sch)) = [''failure'', ''in_progress'']
         \<and> map hr_error (getHistory (sch_storage sch))
             = [Some ''Unknown error occurred'', None]
         \<and> sch_notifications sch
             = [NotifyRenewalFailure (JStr ''a.example'') ''Unknown error occurred''])"
  by code_simp

end
